theory Spec2Isabelle
  imports Complex_Main "HOL-Library.Product_Lexorder" "HOL-Library.Multiset"
begin

section \<open>Python values\<close>

subsection \<open>Strings\<close>

text \<open>
  A Python \<open>str\<close> is a sequence of Unicode code points; it is modelled as the list of its
  code points. \<open>U\<close> embeds an ASCII literal. The Chinese labels and the emoji of the source
  are written as code point lists, with an English gloss.
\<close>

type_synonym ustr = "nat list"

definition U :: "string \<Rightarrow> ustr" where
  "U s = map of_char s"

text \<open>\<open>s.startswith(p)\<close> and the substring test \<open>sub in s\<close>.\<close>

fun startswith :: "'a list \<Rightarrow> 'a list \<Rightarrow> bool" where
  "startswith s [] = True"
| "startswith [] (p # ps) = False"
| "startswith (c # s) (p # ps) = (c = p \<and> startswith s ps)"

fun py_in :: "'a list \<Rightarrow> 'a list \<Rightarrow> bool" where
  "py_in sub [] = (sub = [])"
| "py_in sub (c # s) = (startswith (c # s) sub \<or> py_in sub s)"

text \<open>
  \<open>str.lower()\<close> applies the Unicode case mapping of the Python runtime, a table that is not
  part of this repository. Every function that lowers a string therefore takes the lowering
  function as its first argument \<open>lower\<close>. \<open>ascii_lower\<close> is what \<open>str.lower()\<close> computes on
  strings made of ASCII and caseless code points (CJK ideographs): it is the instance used
  for concrete inputs.
\<close>

definition ascii_lower :: "ustr \<Rightarrow> ustr" where
  "ascii_lower s = map (\<lambda>c. if 65 \<le> c \<and> c \<le> 90 then c + 32 else c) s"

subsection \<open>Dictionaries\<close>

text \<open>
  A \<open>dict\<close> is an association list with distinct keys in insertion order: \<open>map_of\<close> is the
  lookup, the list order is the iteration order. \<open>dict_set\<close> is \<open>d[k] = v\<close> (an existing key
  keeps its position) and \<open>dict_merge a b\<close> is \<open>{**a, **b}\<close>.
\<close>

fun dict_set :: "('k \<times> 'v) list \<Rightarrow> 'k \<Rightarrow> 'v \<Rightarrow> ('k \<times> 'v) list" where
  "dict_set [] k v = [(k, v)]"
| "dict_set ((k', v') # d) k v = (if k' = k then (k', v) # d else (k', v') # dict_set d k v)"

definition dict_merge :: "('k \<times> 'v) list \<Rightarrow> ('k \<times> 'v) list \<Rightarrow> ('k \<times> 'v) list" where
  "dict_merge a b = foldl (\<lambda>d (k, v). dict_set d k v) a b"

section \<open>Condition normalizer (weather.py)\<close>

text \<open>The condition labels of the source, with their code points.\<close>

abbreviation cn_sunny :: ustr where "cn_sunny \<equiv> [0x6674, 0x5929]"
abbreviation cn_cloudy :: ustr where "cn_cloudy \<equiv> [0x591A, 0x4E91]"
abbreviation cn_overcast :: ustr where "cn_overcast \<equiv> [0x9634, 0x5929]"
abbreviation cn_rain :: ustr where "cn_rain \<equiv> [0x96E8, 0x5929]"
abbreviation cn_light_rain :: ustr where "cn_light_rain \<equiv> [0x5C0F, 0x96E8]"
abbreviation cn_showers :: ustr where "cn_showers \<equiv> [0x9635, 0x96E8]"
abbreviation cn_thunderstorm :: ustr where "cn_thunderstorm \<equiv> [0x96F7, 0x96E8]"
abbreviation cn_snow :: ustr where "cn_snow \<equiv> [0x96EA, 0x5929]"
abbreviation cn_fog :: ustr where "cn_fog \<equiv> [0x96FE]"

text \<open>The single characters "rain" (U+96E8) and "snow" (U+96EA) tested by the resolver.\<close>

abbreviation ch_rain :: ustr where "ch_rain \<equiv> [0x96E8]"
abbreviation ch_snow :: ustr where "ch_snow \<equiv> [0x96EA]"

definition openweather_map :: "(ustr \<times> ustr) list" where
  "openweather_map =
    [(U ''clear'', cn_sunny),
     (U ''clouds'', cn_cloudy),
     (U ''rain'', cn_rain),
     (U ''drizzle'', cn_light_rain),
     (U ''thunderstorm'', cn_thunderstorm),
     (U ''snow'', cn_snow),
     (U ''mist'', cn_fog),
     (U ''fog'', cn_fog),
     (U ''haze'', cn_fog)]"

definition general_map :: "(ustr \<times> ustr) list" where
  "general_map =
    [(U ''clear'', cn_sunny),
     (U ''sunny'', cn_sunny),
     (U ''partly cloudy'', cn_cloudy),
     (U ''cloudy'', cn_cloudy),
     (U ''overcast'', cn_overcast),
     (U ''rain'', cn_rain),
     (U ''rainy'', cn_rain),
     (U ''drizzle'', cn_light_rain),
     (U ''showers'', cn_showers),
     (U ''thunderstorm'', cn_thunderstorm),
     (U ''snow'', cn_snow),
     (U ''snowy'', cn_snow),
     (U ''mist'', cn_fog),
     (U ''fog'', cn_fog),
     (U ''foggy'', cn_fog)]"

definition map_condition_to_chinese :: "(ustr \<Rightarrow> ustr) \<Rightarrow> ustr \<Rightarrow> ustr" where
  "map_condition_to_chinese lower condition =
    (let condition_lower = lower condition in
     case map_of openweather_map condition_lower of
       Some v \<Rightarrow> v
     | None \<Rightarrow>
        (case map_of general_map condition_lower of
           Some v \<Rightarrow> v
         | None \<Rightarrow>
            (case find (\<lambda>(key, value). py_in key condition_lower \<or> py_in condition_lower key)
                    (dict_merge openweather_map general_map) of
               Some (key, value) \<Rightarrow> value
             | None \<Rightarrow> cn_cloudy)))"

text \<open>The icons: sun, sun behind cloud, rain cloud, sun behind rain cloud, thunder cloud,
  snowflake, fog, and the default (sun behind small cloud).\<close>

abbreviation icon_sun :: ustr where "icon_sun \<equiv> [0x2600, 0xFE0F]"
abbreviation icon_sun_cloud :: ustr where "icon_sun_cloud \<equiv> [0x26C5]"
abbreviation icon_rain :: ustr where "icon_rain \<equiv> [0x1F327, 0xFE0F]"
abbreviation icon_sun_rain :: ustr where "icon_sun_rain \<equiv> [0x1F326, 0xFE0F]"
abbreviation icon_thunder :: ustr where "icon_thunder \<equiv> [0x26C8, 0xFE0F]"
abbreviation icon_snowflake :: ustr where "icon_snowflake \<equiv> [0x2744, 0xFE0F]"
abbreviation icon_fog :: ustr where "icon_fog \<equiv> [0x1F32B, 0xFE0F]"
abbreviation icon_default :: ustr where "icon_default \<equiv> [0x1F324, 0xFE0F]"

definition icon_map :: "(ustr \<times> ustr) list" where
  "icon_map =
    [(cn_sunny, icon_sun),
     (cn_cloudy, icon_sun_cloud),
     (cn_rain, icon_rain),
     (cn_light_rain, icon_sun_rain),
     (cn_thunderstorm, icon_thunder),
     (cn_snow, icon_snowflake),
     (cn_fog, icon_fog)]"

definition get_weather_icon :: "ustr \<Rightarrow> ustr" where
  "get_weather_icon condition =
    (case map_of icon_map condition of Some icon \<Rightarrow> icon | None \<Rightarrow> icon_default)"

text \<open>The labels the two tables and the default of the normalizer can produce.\<close>

definition condition_vocabulary :: "ustr list" where
  "condition_vocabulary =
    [cn_sunny, cn_cloudy, cn_overcast, cn_rain, cn_light_rain, cn_showers,
     cn_thunderstorm, cn_snow, cn_fog]"

section \<open>Gear lookup (gear.py)\<close>

text \<open>The sport labels that key the gear table and the place-type table: long-distance
  running, running, swimming, strength training, fitness, yoga, riding, bicycle, basketball,
  badminton, mountain climbing.\<close>

abbreviation sport_long_run :: ustr where "sport_long_run \<equiv> [0x957F, 0x8DD1]"
abbreviation sport_run :: ustr where "sport_run \<equiv> [0x8DD1, 0x6B65]"
abbreviation sport_swim :: ustr where "sport_swim \<equiv> [0x6E38, 0x6CF3]"
abbreviation sport_strength :: ustr where "sport_strength \<equiv> [0x529B, 0x91CF, 0x8BAD, 0x7EC3]"
abbreviation sport_fitness :: ustr where "sport_fitness \<equiv> [0x5065, 0x8EAB]"
abbreviation sport_yoga :: ustr where "sport_yoga \<equiv> [0x745C, 0x4F3D]"
abbreviation sport_ride :: ustr where "sport_ride \<equiv> [0x9A91, 0x884C]"
abbreviation sport_bicycle :: ustr where "sport_bicycle \<equiv> [0x81EA, 0x884C, 0x8F66]"
abbreviation sport_basketball :: ustr where "sport_basketball \<equiv> [0x7BEE, 0x7403]"
abbreviation sport_badminton :: ustr where "sport_badminton \<equiv> [0x7FBD, 0x6BDB, 0x7403]"
abbreviation sport_climb :: ustr where "sport_climb \<equiv> [0x722C, 0x5C71]"

record gear_set =
  shoes :: "ustr list"
  clothing :: "ustr list"
  accessories :: "ustr list"

text \<open>The gear sets of the table. The source repeats the same literal under each key of a
  sport; the items are running shoes, sports shoes, quick-dry T-shirt, shorts, socks, sports
  watch, water bottle, towel, and so on.\<close>

definition running_gear :: gear_set where
  "running_gear =
    \<lparr>shoes = [[0x8DD1, 0x6B65, 0x978B], [0x8FD0, 0x52A8, 0x978B]],
     clothing = [[0x901F, 0x5E72, 0x54, 0x6064], [0x8FD0, 0x52A8, 0x77ED, 0x88E4],
                 [0x8FD0, 0x52A8, 0x889C]],
     accessories = [[0x8FD0, 0x52A8, 0x624B, 0x8868], [0x6C34, 0x58F6], [0x6BDB, 0x5DFE]]\<rparr>"

definition swimming_gear :: gear_set where
  "swimming_gear =
    \<lparr>shoes = [],
     clothing = [[0x6CF3, 0x8863], [0x6CF3, 0x5E3D], [0x6CF3, 0x955C], [0x6D74, 0x5DFE]],
     accessories = [[0x9632, 0x6C34, 0x888B], [0x62D6, 0x978B], [0x6D17, 0x62A4, 0x7528, 0x54C1]]\<rparr>"

definition strength_gear :: gear_set where
  "strength_gear =
    \<lparr>shoes = [[0x8BAD, 0x7EC3, 0x978B]],
     clothing = [[0x8FD0, 0x52A8, 0x80CC, 0x5FC3], [0x8FD0, 0x52A8, 0x957F, 0x88E4],
                 [0x8FD0, 0x52A8, 0x624B, 0x5957]],
     accessories = [[0x6C34, 0x58F6], [0x6BDB, 0x5DFE], [0x62A4, 0x8155]]\<rparr>"

definition yoga_gear :: gear_set where
  "yoga_gear =
    \<lparr>shoes = [],
     clothing = [[0x745C, 0x4F3D, 0x670D], [0x745C, 0x4F3D, 0x88E4], [0x8FD0, 0x52A8, 0x5185, 0x8863]],
     accessories = [[0x745C, 0x4F3D, 0x57AB], [0x745C, 0x4F3D, 0x7816], [0x745C, 0x4F3D, 0x5E26]]\<rparr>"

definition cycling_gear :: gear_set where
  "cycling_gear =
    \<lparr>shoes = [[0x9A91, 0x884C, 0x978B]],
     clothing = [[0x9A91, 0x884C, 0x670D], [0x9A91, 0x884C, 0x88E4], [0x5934, 0x76D4]],
     accessories = [[0x6C34, 0x58F6], [0x624B, 0x5957], [0x62A4, 0x76EE, 0x955C]]\<rparr>"

definition basketball_gear :: gear_set where
  "basketball_gear =
    \<lparr>shoes = [[0x7BEE, 0x7403, 0x978B]],
     clothing = [[0x8FD0, 0x52A8, 0x80CC, 0x5FC3], [0x8FD0, 0x52A8, 0x77ED, 0x88E4]],
     accessories = [[0x62A4, 0x819D], [0x62A4, 0x8155], [0x6C34, 0x58F6]]\<rparr>"

definition badminton_gear :: gear_set where
  "badminton_gear =
    \<lparr>shoes = [[0x7FBD, 0x6BDB, 0x7403, 0x978B]],
     clothing = [[0x8FD0, 0x52A8, 0x54, 0x6064], [0x8FD0, 0x52A8, 0x77ED, 0x88E4]],
     accessories = [[0x7FBD, 0x6BDB, 0x7403, 0x62CD], [0x7FBD, 0x6BDB, 0x7403], [0x62A4, 0x8155]]\<rparr>"

definition climbing_gear :: gear_set where
  "climbing_gear =
    \<lparr>shoes = [[0x767B, 0x5C71, 0x978B]],
     clothing = [[0x901F, 0x5E72, 0x8863], [0x51B2, 0x950B, 0x8863], [0x8FD0, 0x52A8, 0x957F, 0x88E4]],
     accessories = [[0x767B, 0x5C71, 0x6756], [0x80CC, 0x5305], [0x6C34, 0x58F6]]\<rparr>"

text \<open>The default of \<open>get_recommended_gear\<close>: sports shoes; sportswear and sports trousers;
  water bottle and towel.\<close>

definition default_gear :: gear_set where
  "default_gear =
    \<lparr>shoes = [[0x8FD0, 0x52A8, 0x978B]],
     clothing = [[0x8FD0, 0x52A8, 0x670D], [0x8FD0, 0x52A8, 0x88E4]],
     accessories = [[0x6C34, 0x58F6], [0x6BDB, 0x5DFE]]\<rparr>"

definition GEAR_MAP :: "(ustr \<times> gear_set) list" where
  "GEAR_MAP =
    [(sport_long_run, running_gear),
     (sport_run, running_gear),
     (U ''running'', running_gear),
     (sport_swim, swimming_gear),
     (U ''swimming'', swimming_gear),
     (sport_strength, strength_gear),
     (sport_fitness, strength_gear),
     (U ''gym'', strength_gear),
     (sport_yoga, yoga_gear),
     (U ''yoga'', yoga_gear),
     (sport_ride, cycling_gear),
     (sport_bicycle, cycling_gear),
     (U ''cycling'', cycling_gear),
     (sport_basketball, basketball_gear),
     (sport_badminton, badminton_gear),
     (sport_climb, climbing_gear)]"

text \<open>The result dictionaries of the three tools share the key \<open>status\<close>.\<close>

record tool_result =
  status :: string

record gear_result = tool_result +
  sport_type :: ustr
  recommended_gear :: gear_set

text \<open>
  \<open>gear_matches\<close> is the condition of the keyword loop. Every value of the table is a
  non-empty dictionary, hence truthy: \<open>a or b\<close> and \<open>not gear\<close> only test whether a lookup
  found an entry. The argument \<open>sport_type\<close> of the source is called \<open>sport\<close>, since
  \<open>sport_type\<close> names the key of the result.
\<close>

definition gear_matches :: "(ustr \<Rightarrow> ustr) \<Rightarrow> ustr \<Rightarrow> ustr \<Rightarrow> bool" where
  "gear_matches lower sport_type_lower key =
    (py_in (lower key) sport_type_lower \<or> py_in sport_type_lower (lower key))"

definition get_recommended_gear :: "(ustr \<Rightarrow> ustr) \<Rightarrow> ustr \<Rightarrow> gear_result" where
  "get_recommended_gear lower sport =
    (let sport_type_lower = lower sport;
         gear = (case map_of GEAR_MAP sport of
                   Some g \<Rightarrow> Some g
                 | None \<Rightarrow> map_of GEAR_MAP sport_type_lower);
         gear = (case gear of
                   Some g \<Rightarrow> Some g
                 | None \<Rightarrow>
                    map_option snd
                      (find (\<lambda>(key, value). gear_matches lower sport_type_lower key) GEAR_MAP));
         gear = (case gear of Some g \<Rightarrow> g | None \<Rightarrow> default_gear)
     in \<lparr>status = ''success'', sport_type = sport, recommended_gear = gear\<rparr>)"

section \<open>Place types of a sport (venues.py)\<close>

definition sport_mapping :: "(ustr \<times> ustr list) list" where
  "sport_mapping =
    [(sport_long_run, [U ''park'', U ''route'']),
     (sport_run, [U ''park'', U ''route'']),
     (U ''running'', [U ''park'', U ''route'']),
     (sport_swim, [U ''swimming_pool'', U ''gym'']),
     (U ''swimming'', [U ''swimming_pool'', U ''gym'']),
     (sport_strength, [U ''gym'', U ''health'']),
     (sport_fitness, [U ''gym'', U ''health'']),
     (U ''gym'', [U ''gym'', U ''health'']),
     (sport_yoga, [U ''gym'', U ''yoga'']),
     (U ''yoga'', [U ''gym'', U ''yoga'']),
     (sport_ride, [U ''park'', U ''route'', U ''bicycle_store'']),
     (sport_bicycle, [U ''park'', U ''route'', U ''bicycle_store'']),
     (U ''cycling'', [U ''park'', U ''route'', U ''bicycle_store'']),
     (sport_basketball, [U ''basketball_court'', U ''gym'']),
     (sport_badminton, [U ''gym'', U ''sports_complex'']),
     (sport_climb, [U ''park'', U ''natural_feature''])]"

definition map_sport_to_place_types :: "(ustr \<Rightarrow> ustr) \<Rightarrow> ustr \<Rightarrow> ustr list" where
  "map_sport_to_place_types lower sport =
    (let sport_lower = lower sport in
     case map_of sport_mapping sport of
       Some v \<Rightarrow> v
     | None \<Rightarrow>
        (case find (\<lambda>(key, value). py_in (lower key) sport_lower \<or> py_in sport_lower (lower key))
                sport_mapping of
           Some (key, value) \<Rightarrow> value
         | None \<Rightarrow> [U ''gym'', U ''park'']))"

section \<open>Exceptions and decoded JSON\<close>

text \<open>
  An exception is a value: a function that can raise returns \<open>py_exception + 'a\<close>, with \<open>Inl\<close>
  for the exception; \<open>andthen m f\<close> runs \<open>f\<close> on the value of \<open>m\<close> unless \<open>m\<close> raised.
  \<open>py_exception\<close> records what the handlers of the source tell apart:
  \<open>requests.exceptions.HTTPError\<close>, and any other instance of \<open>Exception\<close> (a \<open>TypeError\<close>,
  \<open>KeyError\<close>, \<open>AttributeError\<close>, \<open>IndexError\<close>, a connection failure or timeout of
  \<open>requests\<close>, a JSON decoding error). Log lines and exception messages are not modelled:
  they do not reach the caller.
\<close>

datatype py_exception = HTTPError | OtherException

definition andthen :: "py_exception + 'a \<Rightarrow> ('a \<Rightarrow> py_exception + 'b) \<Rightarrow> py_exception + 'b" where
  "andthen m f = (case m of Inl e \<Rightarrow> Inl e | Inr x \<Rightarrow> f x)"

text \<open>A \<open>for\<close> loop that appends one entry per element and stops at the first exception.\<close>

fun for_each :: "('a \<Rightarrow> py_exception + 'b) \<Rightarrow> 'a list \<Rightarrow> py_exception + 'b list" where
  "for_each f [] = Inr []"
| "for_each f (x # xs) = andthen (f x) (\<lambda>y. andthen (for_each f xs) (\<lambda>ys. Inr (y # ys)))"

text \<open>
  The value \<open>json.loads\<close> returns. A \<open>float\<close> is the rational it denotes: the rounding error
  of floating-point arithmetic, NaN and the infinities are not modelled. The keys of an
  object are distinct.
\<close>

datatype json =
    JNull
  | JBool bool
  | JInt int
  | JFloat rat
  | JStr ustr
  | JArr "json list"
  | JObj "(ustr \<times> json) list"

text \<open>Truth value of an object, as \<open>not x\<close>, \<open>x or y\<close> and \<open>if x\<close> test it.\<close>

fun truthy :: "json \<Rightarrow> bool" where
  "truthy JNull = False"
| "truthy (JBool b) = b"
| "truthy (JInt i) = (i \<noteq> 0)"
| "truthy (JFloat r) = (r \<noteq> 0)"
| "truthy (JStr s) = (s \<noteq> [])"
| "truthy (JArr xs) = (xs \<noteq> [])"
| "truthy (JObj kvs) = (kvs \<noteq> [])"

text \<open>\<open>x.get(key, default)\<close>: only a dictionary has the method (\<open>AttributeError\<close>).\<close>

fun py_get :: "json \<Rightarrow> ustr \<Rightarrow> json \<Rightarrow> py_exception + json" where
  "py_get (JObj kvs) k d = Inr (case map_of kvs k of Some v \<Rightarrow> v | None \<Rightarrow> d)"
| "py_get _ k d = Inl OtherException"

text \<open>\<open>x[key]\<close> with a string key: \<open>KeyError\<close> on a dictionary without the key,
  \<open>TypeError\<close> on any other value.\<close>

fun py_getitem :: "json \<Rightarrow> ustr \<Rightarrow> py_exception + json" where
  "py_getitem (JObj kvs) k = (case map_of kvs k of Some v \<Rightarrow> Inr v | None \<Rightarrow> Inl OtherException)"
| "py_getitem _ k = Inl OtherException"

text \<open>\<open>x[i]\<close> with an index \<open>i \<ge> 0\<close>: \<open>IndexError\<close> out of range; a dictionary decoded from
  JSON has no integer key (\<open>KeyError\<close>); other values are not subscriptable.\<close>

fun py_index :: "json \<Rightarrow> nat \<Rightarrow> py_exception + json" where
  "py_index (JArr xs) i = (if i < length xs then Inr (xs ! i) else Inl OtherException)"
| "py_index (JStr s) i = (if i < length s then Inr (JStr [s ! i]) else Inl OtherException)"
| "py_index _ i = Inl OtherException"

fun py_len :: "json \<Rightarrow> py_exception + nat" where
  "py_len (JArr xs) = Inr (length xs)"
| "py_len (JStr s) = Inr (length s)"
| "py_len (JObj kvs) = Inr (length kvs)"
| "py_len _ = Inl OtherException"

text \<open>\<open>for item in x\<close>: the elements of a list, the characters of a string, the keys of a
  dictionary; \<open>TypeError\<close> otherwise.\<close>

fun py_iter :: "json \<Rightarrow> py_exception + json list" where
  "py_iter (JArr xs) = Inr xs"
| "py_iter (JStr s) = Inr (map (\<lambda>c. JStr [c]) s)"
| "py_iter (JObj kvs) = Inr (map (\<lambda>kv. JStr (fst kv)) kvs)"
| "py_iter _ = Inl OtherException"

text \<open>The numbers: \<open>int\<close>, \<open>float\<close> and \<open>bool\<close> (a subclass of \<open>int\<close>).\<close>

fun as_number :: "json \<Rightarrow> rat option" where
  "as_number (JInt i) = Some (of_int i)"
| "as_number (JFloat r) = Some r"
| "as_number (JBool b) = Some (if b then 1 else 0)"
| "as_number _ = None"

definition number :: "json \<Rightarrow> py_exception + rat" where
  "number j = (case as_number j of Some r \<Rightarrow> Inr r | None \<Rightarrow> Inl OtherException)"

text \<open>\<open>round(x)\<close> with one argument rounds to the nearest integer, a tie to the even one;
  \<open>TypeError\<close> when \<open>x\<close> is not a number.\<close>

definition round_half_even :: "rat \<Rightarrow> int" where
  "round_half_even x =
    (let f = \<lfloor>x\<rfloor>; d = x - of_int f in
     if d < 1 / 2 then f else if 1 / 2 < d then f + 1 else if even f then f else f + 1)"

definition py_round :: "json \<Rightarrow> py_exception + int" where
  "py_round j = andthen (number j) (\<lambda>r. Inr (round_half_even r))"

text \<open>\<open>a + b\<close>: numbers add, two strings and two lists concatenate, \<open>TypeError\<close> otherwise.\<close>

fun is_int :: "json \<Rightarrow> bool" where
  "is_int (JInt i) = True"
| "is_int (JBool b) = True"
| "is_int _ = False"

definition py_add :: "json \<Rightarrow> json \<Rightarrow> py_exception + json" where
  "py_add a b =
    (case (as_number a, as_number b) of
       (Some x, Some y) \<Rightarrow>
         Inr (if is_int a \<and> is_int b then JInt \<lfloor>x + y\<rfloor> else JFloat (x + y))
     | _ \<Rightarrow>
        (case (a, b) of
           (JStr s, JStr t) \<Rightarrow> Inr (JStr (s @ t))
         | (JArr xs, JArr ys) \<Rightarrow> Inr (JArr (xs @ ys))
         | _ \<Rightarrow> Inl OtherException))"

text \<open>
  The key under which a value is stored in a \<open>set\<close> or \<open>dict\<close>: \<open>1\<close>, \<open>1.0\<close> and \<open>True\<close> are
  equal and hash alike, a list or dictionary is unhashable (\<open>TypeError\<close>).
\<close>

datatype hkey = KNone | KNum rat | KStr ustr

fun hash_key :: "json \<Rightarrow> py_exception + hkey" where
  "hash_key JNull = Inr KNone"
| "hash_key (JBool b) = Inr (KNum (if b then 1 else 0))"
| "hash_key (JInt i) = Inr (KNum (of_int i))"
| "hash_key (JFloat r) = Inr (KNum r)"
| "hash_key (JStr s) = Inr (KStr s)"
| "hash_key (JArr xs) = Inl OtherException"
| "hash_key (JObj kvs) = Inl OtherException"

section \<open>The environment of the tools\<close>

text \<open>\<open>requests.Response\<close>: \<open>json_body\<close> is \<open>None\<close> when the body is not JSON and
  \<open>response.json()\<close> raises; \<open>response_text\<close> is the attribute \<open>text\<close>.\<close>

record response =
  status_code :: int
  response_text :: ustr
  json_body :: "json option"

definition response_json :: "response \<Rightarrow> py_exception + json" where
  "response_json r = (case json_body r of Some j \<Rightarrow> Inr j | None \<Rightarrow> Inl OtherException)"

definition raise_for_status :: "response \<Rightarrow> py_exception + unit" where
  "raise_for_status r =
    (if 400 \<le> status_code r \<and> status_code r < 600 then Inl HTTPError else Inr ())"

text \<open>
  What the tools read from outside the repository, passed explicitly:
  \<^item> \<open>str_lower\<close>: \<open>str.lower\<close>;
  \<^item> \<open>today\<close>: \<open>datetime.now().date()\<close>. A date is its proleptic Gregorian ordinal
    (\<open>date.toordinal()\<close>), so that \<open>d + timedelta(days=i)\<close> is \<open>d + i\<close>; the bounds of the
    calendar (years 1 to 9999) are not modelled;
  \<^item> \<open>environ\<close>: \<open>os.environ\<close>;
  \<^item> \<open>google_get latitude longitude days key\<close> and \<open>openweather_get latitude longitude cnt
    key\<close>: the two calls of \<open>requests.get\<close>, which raise or return a response;
  \<^item> \<open>fromtimestamp\<close>: the local calendar date of \<open>datetime.fromtimestamp(t)\<close>, which raises
    for a timestamp out of range;
  \<^item> \<open>googlemaps_Client key\<close>: the constructor of the client, which raises or returns the
    method \<open>places_nearby location radius type\<close>;
  \<^item> \<open>calculate_distance lat1 lon1 lat2 lon2\<close>: the haversine formula of
    \<open>_calculate_distance\<close>, whose floating-point trigonometry is not modelled (its
    \<open>math.sqrt\<close> raises on a negative argument);
  \<^item> \<open>format_int\<close> and \<open>format_1f\<close>: the renderings of the format strings \<open>{n}\<close> for an
    integer and \<open>{x:.1f}\<close>.
\<close>

record world =
  str_lower :: "ustr \<Rightarrow> ustr"
  today :: int
  environ :: "string \<Rightarrow> ustr option"
  google_get :: "rat \<Rightarrow> rat \<Rightarrow> int \<Rightarrow> ustr \<Rightarrow> py_exception + response"
  openweather_get :: "rat \<Rightarrow> rat \<Rightarrow> int \<Rightarrow> ustr \<Rightarrow> py_exception + response"
  fromtimestamp :: "rat \<Rightarrow> py_exception + int"
  googlemaps_Client :: "ustr \<Rightarrow> py_exception + (rat \<times> rat \<Rightarrow> int \<Rightarrow> ustr \<Rightarrow> py_exception + json)"
  calculate_distance :: "rat \<Rightarrow> rat \<Rightarrow> rat \<Rightarrow> rat \<Rightarrow> py_exception + rat"
  format_int :: "int \<Rightarrow> ustr"
  format_1f :: "rat \<Rightarrow> ustr"

text \<open>
  The credential lookup that opens \<open>get_weather_forecast\<close> and \<open>search_nearby_venues\<close>.
  \<open>tool_context\<close> is \<open>None\<close> or the dictionary \<open>tool_context.state\<close>; a key is usable when
  it is a non-empty string.
\<close>

definition usable :: "ustr option \<Rightarrow> bool" where
  "usable k = (case k of None \<Rightarrow> False | Some s \<Rightarrow> s \<noteq> [])"

definition get_or_empty :: "ustr option \<Rightarrow> ustr" where
  "get_or_empty k = (case k of None \<Rightarrow> [] | Some s \<Rightarrow> s)"

definition resolve_maps_api_key :: "world \<Rightarrow> (string \<Rightarrow> ustr option) option \<Rightarrow> ustr option" where
  "resolve_maps_api_key w tool_context =
    (let maps_api_key =
           (case tool_context of
              None \<Rightarrow> None
            | Some state \<Rightarrow> Some (get_or_empty (state ''maps_api_key'')))
     in if \<not> usable maps_api_key
        then (if usable (environ w ''GOOGLE_MAPS_API_KEY'')
              then environ w ''GOOGLE_MAPS_API_KEY''
              else Some (get_or_empty (environ w ''MAPS_API_KEY'')))
        else maps_api_key)"

definition resolve_openweather_key :: "world \<Rightarrow> ustr option" where
  "resolve_openweather_key w =
    (if usable (environ w ''OPENWEATHER_API_KEY'')
     then environ w ''OPENWEATHER_API_KEY''
     else environ w ''WEATHER_API_KEY'')"

section \<open>Weather forecast (weather.py)\<close>

record temperature_range =
  high :: int
  low :: int

text \<open>One entry of the forecast. \<open>date\<close> is the date itself; its rendering by
  \<open>strftime("%Y-%m-%d")\<close> is not modelled.\<close>

record forecast_day =
  date :: int
  day_of_week :: ustr
  condition :: ustr
  condition_icon :: ustr
  temperature :: temperature_range
  humidity :: int
  wind_speed :: int
  precipitation_probability :: int
  suitable_for_outdoor :: bool

record weather_result = tool_result +
  forecast :: "forecast_day list"

text \<open>\<open>date.weekday()\<close>: Monday is 0, and ordinal 1 is a Monday.\<close>

definition weekday :: "int \<Rightarrow> int" where
  "weekday d = (d + 6) mod 7"

text \<open>The names of the days, Monday to Sunday.\<close>

definition week_days :: "ustr list" where
  "week_days =
    [[0x5468, 0x4E00], [0x5468, 0x4E8C], [0x5468, 0x4E09], [0x5468, 0x56DB],
     [0x5468, 0x4E94], [0x5468, 0x516D], [0x5468, 0x65E5]]"

text \<open>\<open>days[weekday]\<close>: a negative index counts from the end, \<open>IndexError\<close> out of range.\<close>

definition get_day_of_week_cn :: "int \<Rightarrow> py_exception + ustr" where
  "get_day_of_week_cn wd =
    (if 0 \<le> wd \<and> wd < 7 then Inr (week_days ! nat wd)
     else if - 7 \<le> wd \<and> wd < 0 then Inr (week_days ! nat (wd + 7))
     else Inl OtherException)"

subsection \<open>Synthetic forecast\<close>

definition mock_conditions :: "ustr list" where
  "mock_conditions =
    [cn_sunny, cn_cloudy, cn_sunny, cn_light_rain, cn_cloudy, cn_sunny, cn_cloudy]"

definition mock_day :: "world \<Rightarrow> nat \<Rightarrow> py_exception + forecast_day" where
  "mock_day w i =
    (let base_temp = 20;
         forecast_date = today w + int i;
         condition' = mock_conditions ! (i mod length mock_conditions);
         temp_variation = (int i mod 3) * 2 - 2
     in andthen (get_day_of_week_cn (weekday forecast_date)) (\<lambda>dow.
        Inr \<lparr>date = forecast_date,
             day_of_week = dow,
             condition = condition',
             condition_icon = get_weather_icon condition',
             temperature = \<lparr>high = base_temp + temp_variation + 5,
                            low = base_temp + temp_variation\<rparr>,
             humidity = 60 + (int i mod 3) * 5,
             wind_speed = 8 + (int i mod 3) * 2,
             precipitation_probability = (if \<not> py_in ch_rain condition' then 20 else 70),
             suitable_for_outdoor = (\<not> py_in ch_rain condition')\<rparr>))"

definition get_mock_weather_forecast ::
    "world \<Rightarrow> rat \<Rightarrow> rat \<Rightarrow> int \<Rightarrow> py_exception + weather_result" where
  "get_mock_weather_forecast w latitude longitude days =
    andthen (for_each (mock_day w) [0..<nat days]) (\<lambda>forecast_list.
    Inr \<lparr>status = ''success'', forecast = forecast_list\<rparr>)"

subsection \<open>Primary provider\<close>

text \<open>
  The fields of one day before rounding: high, low, normalized condition, humidity, wind
  speed, precipitation probability, outdoor suitability. The numeric fields are still the
  values found in the payload.
\<close>

type_synonym day_fields = "json \<times> json \<times> ustr \<times> json \<times> json \<times> json \<times> bool"

text \<open>A day the provider did not return.\<close>

definition default_fields :: day_fields where
  "default_fields = (JInt 22, JInt 15, cn_cloudy, JInt 60, JInt 10, JInt 20, True)"

text \<open>The entry appended to \<open>forecast_list\<close>; the two provider tiers build it alike. The
  secondary tier stores its precipitation probability, an integer, without rounding it:
  rounding an integer returns it.\<close>

definition forecast_entry :: "int \<Rightarrow> day_fields \<Rightarrow> py_exception + forecast_day" where
  "forecast_entry forecast_date flds =
    (case flds of
       (high_temp, low_temp, condition_cn, humidity', wind_speed', precipitation_prob,
        suitable_outdoor) \<Rightarrow>
         andthen (get_day_of_week_cn (weekday forecast_date)) (\<lambda>dow.
         andthen (py_round high_temp) (\<lambda>h.
         andthen (py_round low_temp) (\<lambda>l.
         andthen (py_round humidity') (\<lambda>hum.
         andthen (py_round wind_speed') (\<lambda>wind.
         andthen (py_round precipitation_prob) (\<lambda>prob.
         Inr \<lparr>date = forecast_date,
              day_of_week = dow,
              condition = condition_cn,
              condition_icon = get_weather_icon condition_cn,
              temperature = \<lparr>high = h, low = l\<rparr>,
              humidity = hum,
              wind_speed = wind,
              precipitation_probability = prob,
              suitable_for_outdoor = suitable_outdoor\<rparr>)))))))"

text \<open>\<open>temp_data\<close>, \<open>high_temp\<close> and \<open>low_temp\<close>. A default argument is evaluated before the
  call that takes it.\<close>

definition google_temperatures :: "json \<Rightarrow> py_exception + json \<times> json" where
  "google_temperatures day_data =
    andthen (py_get day_data (U ''temperature'') (JObj [])) (\<lambda>t.
    andthen (if truthy t then Inr t else py_get day_data (U ''temp'') (JObj [])) (\<lambda>temp_data.
    andthen (py_get temp_data (U ''max'') (JInt 22)) (\<lambda>d1.
    andthen (py_get temp_data (U ''high'') d1) (\<lambda>high_temp.
    andthen (py_get temp_data (U ''min'') (JInt 15)) (\<lambda>d2.
    andthen (py_get temp_data (U ''low'') d2) (\<lambda>low_temp.
    Inr (high_temp, low_temp)))))))"

text \<open>\<open>condition_cn\<close>: the normalizer calls \<open>condition.lower()\<close>, which only a string has.\<close>

definition google_condition :: "world \<Rightarrow> json \<Rightarrow> py_exception + ustr" where
  "google_condition w day_data =
    andthen (py_get day_data (U ''weather'') (JObj [])) (\<lambda>d.
    andthen (py_get day_data (U ''condition'') d) (\<lambda>condition_data.
    andthen (case condition_data of
               JStr s \<Rightarrow> Inr condition_data
             | _ \<Rightarrow>
                andthen (py_get condition_data (U ''main'') (JStr cn_cloudy)) (\<lambda>d'.
                py_get condition_data (U ''text'') d')) (\<lambda>condition'.
    case condition' of
      JStr s \<Rightarrow> Inr (map_condition_to_chinese (str_lower w) s)
    | _ \<Rightarrow> Inl OtherException)))"

text \<open>\<open>wind_speed\<close>: a value above 50 is multiplied by 3.6; comparing a value that is not a
  number with 50 raises \<open>TypeError\<close>.\<close>

definition google_wind_speed :: "json \<Rightarrow> py_exception + json" where
  "google_wind_speed day_data =
    andthen (py_get day_data (U ''wind'') (JObj [])) (\<lambda>wind.
    andthen (py_get wind (U ''speed'') (JInt 10)) (\<lambda>d.
    andthen (py_get day_data (U ''windSpeed'') d) (\<lambda>wind_speed'.
    andthen (number wind_speed') (\<lambda>r.
    Inr (if 50 < r then JFloat (r * (36 / 10)) else wind_speed')))))"

text \<open>\<open>suitable_outdoor\<close>: \<open>and\<close> evaluates the comparison only when the label has neither
  the character "rain" nor "snow".\<close>

definition google_suitable :: "ustr \<Rightarrow> json \<Rightarrow> py_exception + bool" where
  "google_suitable condition_cn precipitation_prob =
    (if \<not> py_in ch_rain condition_cn \<and> \<not> py_in ch_snow condition_cn
     then andthen (number precipitation_prob) (\<lambda>p. Inr (p < 50))
     else Inr False)"

definition google_fields :: "world \<Rightarrow> json \<Rightarrow> py_exception + day_fields" where
  "google_fields w day_data =
    andthen (google_temperatures day_data) (\<lambda>(high_temp, low_temp).
    andthen (google_condition w day_data) (\<lambda>condition_cn.
    andthen (py_get day_data (U ''relativeHumidity'') (JInt 60)) (\<lambda>d1.
    andthen (py_get day_data (U ''humidity'') d1) (\<lambda>humidity'.
    andthen (google_wind_speed day_data) (\<lambda>wind_speed'.
    andthen (py_get day_data (U ''pop'') (JInt 20)) (\<lambda>d2.
    andthen (py_get day_data (U ''precipitationProbability'') d2) (\<lambda>precipitation_prob.
    andthen (google_suitable condition_cn precipitation_prob) (\<lambda>suitable_outdoor.
    Inr (high_temp, low_temp, condition_cn, humidity', wind_speed', precipitation_prob,
         suitable_outdoor)))))))))"

text \<open>The body of the loop over \<open>range(days)\<close>; \<open>n\<close> is \<open>len(daily_forecasts)\<close>.\<close>

definition google_day :: "world \<Rightarrow> json \<Rightarrow> nat \<Rightarrow> nat \<Rightarrow> py_exception + forecast_day" where
  "google_day w daily_forecasts n i =
    andthen (if i < n
             then andthen (py_index daily_forecasts i) (google_fields w)
             else Inr default_fields)
      (forecast_entry (today w + int i))"

text \<open>The branch for status 404: both of its paths raise \<open>HTTPError\<close>, with different
  messages.\<close>

definition google_not_found :: "world \<Rightarrow> response \<Rightarrow> py_exception + weather_result" where
  "google_not_found w r =
    andthen (if response_text r \<noteq> [] then response_json r else Inr (JObj [])) (\<lambda>error_data.
    andthen (py_get error_data (U ''error'') (JObj [])) (\<lambda>err.
    andthen (py_get err (U ''message'') (JStr (response_text r))) (\<lambda>error_msg.
    case error_msg of
      JStr s \<Rightarrow>
        (if py_in (U ''not supported for this location'') (str_lower w s) \<or>
            py_in (U ''try a different location'') (str_lower w s)
         then Inl HTTPError
         else Inl HTTPError)
    | _ \<Rightarrow> Inl OtherException)))"

text \<open>
  The two handlers of the function (\<open>RequestException\<close>, \<open>KeyError\<close>) log and re-raise: they
  leave the outcome unchanged. The debug line evaluates \<open>len(daily_forecasts)\<close>, which
  raises for a value without a length.
\<close>

definition get_weather_from_google ::
    "world \<Rightarrow> rat \<Rightarrow> rat \<Rightarrow> int \<Rightarrow> ustr \<Rightarrow> py_exception + weather_result" where
  "get_weather_from_google w latitude longitude days api_key =
    andthen (google_get w latitude longitude days api_key) (\<lambda>r.
    if status_code r = 404 then google_not_found w r
    else
      andthen (raise_for_status r) (\<lambda>_.
      andthen (response_json r) (\<lambda>data.
      andthen (py_get data (U ''dailyForecast'') (JObj [])) (\<lambda>daily_forecast_data.
      andthen (py_get daily_forecast_data (U ''days'') (JArr [])) (\<lambda>df.
      andthen (if \<not> truthy df
               then andthen (py_get data (U ''forecast'') (JObj [])) (\<lambda>f.
                    py_get f (U ''daily'') (JArr []))
               else Inr df) (\<lambda>daily_forecasts.
      andthen (py_len daily_forecasts) (\<lambda>n.
      andthen (for_each (google_day w daily_forecasts n) [0..<nat days]) (\<lambda>forecast_list.
      Inr \<lparr>status = ''success'', forecast = forecast_list\<rparr>))))))))"

subsection \<open>Secondary provider\<close>

text \<open>The bucket of one calendar date. The keys \<open>humidity\<close> and \<open>wind_speed\<close> of the source
  are called \<open>humidities\<close> and \<open>wind_speeds\<close>, since a forecast entry has keys of the same
  name.\<close>

record bucket =
  temps :: "json list"
  conditions :: "json list"
  humidities :: "json list"
  wind_speeds :: "rat list"
  precipitation :: "json list"

definition empty_bucket :: bucket where
  "empty_bucket =
    \<lparr>temps = [], conditions = [], humidities = [], wind_speeds = [], precipitation = []\<rparr>"

text \<open>What the first loop reads from one item: the date, the temperature, the condition, the
  humidity, the wind speed in km/h and the precipitation (rain plus snow).\<close>

type_synonym sample = "int \<times> json \<times> json \<times> json \<times> rat \<times> json"

definition precipitation_3h :: "json \<Rightarrow> ustr \<Rightarrow> py_exception + json" where
  "precipitation_3h item k =
    (case item of
       JObj kvs \<Rightarrow>
         (if map_of kvs k \<noteq> None
          then andthen (py_get item k (JObj [])) (\<lambda>x. py_get x (U ''3h'') (JInt 0))
          else Inr (JInt 0))
     | _ \<Rightarrow> Inl OtherException)"

definition owm_sample :: "world \<Rightarrow> json \<Rightarrow> py_exception + sample" where
  "owm_sample w item =
    andthen (py_getitem item (U ''dt'')) (\<lambda>dt.
    andthen (number dt) (\<lambda>t.
    andthen (fromtimestamp w t) (\<lambda>date_key.
    andthen (py_getitem item (U ''main'')) (\<lambda>main.
    andthen (py_getitem main (U ''temp'')) (\<lambda>temp.
    andthen (py_getitem item (U ''weather'')) (\<lambda>weather.
    andthen (py_index weather 0) (\<lambda>weather0.
    andthen (py_getitem weather0 (U ''main'')) (\<lambda>cond.
    andthen (py_getitem main (U ''humidity'')) (\<lambda>hum.
    andthen (py_get item (U ''wind'') (JObj [])) (\<lambda>wind.
    andthen (py_get wind (U ''speed'') (JInt 0)) (\<lambda>speed.
    andthen (number speed) (\<lambda>s.
    andthen (precipitation_3h item (U ''rain'')) (\<lambda>rain.
    andthen (precipitation_3h item (U ''snow'')) (\<lambda>snow.
    andthen (py_add rain snow) (\<lambda>precip.
    Inr (date_key, temp, cond, hum, s * (36 / 10), precip))))))))))))))))"

definition add_sample :: "(int \<times> bucket) list \<Rightarrow> sample \<Rightarrow> (int \<times> bucket) list" where
  "add_sample daily_forecasts smp =
    (case smp of
       (date_key, temp, cond, hum, wind, precip) \<Rightarrow>
         (let b = (case map_of daily_forecasts date_key of
                     Some b \<Rightarrow> b
                   | None \<Rightarrow> empty_bucket)
          in dict_set daily_forecasts date_key
               \<lparr>temps = temps b @ [temp],
                conditions = conditions b @ [cond],
                humidities = humidities b @ [hum],
                wind_speeds = wind_speeds b @ [wind],
                precipitation = precipitation b @ [precip]\<rparr>))"

fun collect_samples ::
    "world \<Rightarrow> (int \<times> bucket) list \<Rightarrow> json list \<Rightarrow> py_exception + (int \<times> bucket) list" where
  "collect_samples w daily_forecasts [] = Inr daily_forecasts"
| "collect_samples w daily_forecasts (item # items) =
    andthen (owm_sample w item) (\<lambda>smp.
    collect_samples w (add_sample daily_forecasts smp) items)"

text \<open>
  \<open>max\<close>, \<open>min\<close> and \<open>sum\<close> over the values of a bucket. A value that is not a number makes
  \<open>sum\<close> raise \<open>TypeError\<close>; in \<open>temps\<close> it makes \<open>max\<close>, \<open>min\<close> or the later \<open>round\<close> raise
  \<open>TypeError\<close> before the entry is built, which the model raises at \<open>max\<close>. \<open>max\<close> and
  \<open>min\<close> of an empty list raise \<open>ValueError\<close>, the mean of an empty list
  \<open>ZeroDivisionError\<close>.
\<close>

definition numbers :: "json list \<Rightarrow> py_exception + rat list" where
  "numbers xs = for_each number xs"

definition py_max :: "rat list \<Rightarrow> py_exception + rat" where
  "py_max xs = (case xs of [] \<Rightarrow> Inl OtherException | x # ys \<Rightarrow> Inr (fold max ys x))"

definition py_min :: "rat list \<Rightarrow> py_exception + rat" where
  "py_min xs = (case xs of [] \<Rightarrow> Inl OtherException | x # ys \<Rightarrow> Inr (fold min ys x))"

definition py_mean :: "rat list \<Rightarrow> py_exception + rat" where
  "py_mean xs =
    (if xs = [] then Inl OtherException else Inr (sum_list xs / of_nat (length xs)))"

text \<open>
  The dominant condition: \<open>condition_counts\<close> counts each condition in order of first
  appearance, and \<open>max(condition_counts, key=condition_counts.get)\<close> returns the first key
  with the largest count.
\<close>

definition count_condition :: "(hkey \<times> nat) list \<Rightarrow> hkey \<Rightarrow> (hkey \<times> nat) list" where
  "count_condition condition_counts cond =
    dict_set condition_counts cond
      ((case map_of condition_counts cond of Some c \<Rightarrow> c | None \<Rightarrow> 0) + 1)"

fun first_max :: "('k \<times> nat) \<Rightarrow> ('k \<times> nat) list \<Rightarrow> ('k \<times> nat)" where
  "first_max best [] = best"
| "first_max best (kv # kvs) = first_max (if snd best < snd kv then kv else best) kvs"

definition main_condition_of :: "json list \<Rightarrow> py_exception + hkey" where
  "main_condition_of conds =
    andthen (for_each hash_key conds) (\<lambda>keys.
    case foldl count_condition [] keys of
      [] \<Rightarrow> Inl OtherException
    | kv # kvs \<Rightarrow> Inr (fst (first_max kv kvs)))"

definition owm_fields :: "world \<Rightarrow> bucket \<Rightarrow> py_exception + day_fields" where
  "owm_fields w day_data =
    andthen (numbers (temps day_data)) (\<lambda>ts.
    andthen (py_max ts) (\<lambda>high_temp.
    andthen (py_min ts) (\<lambda>low_temp.
    andthen (numbers (humidities day_data)) (\<lambda>hs.
    andthen (py_mean hs) (\<lambda>avg_humidity.
    andthen (py_mean (wind_speeds day_data)) (\<lambda>avg_wind.
    andthen (numbers (precipitation day_data)) (\<lambda>ps.
    let total_precip = sum_list ps in
    andthen (main_condition_of (conditions day_data)) (\<lambda>main_condition.
    case main_condition of
      KStr s \<Rightarrow>
        (let condition_cn = map_condition_to_chinese (str_lower w) s;
             precip_prob = (if 0 < total_precip
                            then min (round_half_even (total_precip * 20)) 100
                            else 20);
             suitable_outdoor = (s \<in> set [U ''Clear'', U ''Clouds''] \<and> total_precip < 1)
         in Inr (JFloat high_temp, JFloat low_temp, condition_cn, JFloat avg_humidity,
                 JFloat avg_wind, JInt precip_prob, suitable_outdoor))
    | _ \<Rightarrow> Inl OtherException))))))))"

definition owm_day :: "world \<Rightarrow> (int \<times> bucket) list \<Rightarrow> nat \<Rightarrow> py_exception + forecast_day" where
  "owm_day w daily_forecasts i =
    (let forecast_date = today w + int i in
     andthen (case map_of daily_forecasts forecast_date of
                Some day_data \<Rightarrow> owm_fields w day_data
              | None \<Rightarrow> Inr default_fields)
       (forecast_entry forecast_date))"

definition get_weather_from_openweathermap ::
    "world \<Rightarrow> rat \<Rightarrow> rat \<Rightarrow> int \<Rightarrow> ustr \<Rightarrow> py_exception + weather_result" where
  "get_weather_from_openweathermap w latitude longitude days api_key =
    andthen (openweather_get w latitude longitude (days * 8) api_key) (\<lambda>r.
    andthen (raise_for_status r) (\<lambda>_.
    andthen (response_json r) (\<lambda>data.
    andthen (py_get data (U ''list'') (JArr [])) (\<lambda>l.
    andthen (py_iter l) (\<lambda>items.
    andthen (collect_samples w [] items) (\<lambda>daily_forecasts.
    andthen (for_each (owm_day w daily_forecasts) [0..<nat days]) (\<lambda>forecast_list.
    Inr \<lparr>status = ''success'', forecast = forecast_list\<rparr>)))))))"

subsection \<open>The fallback chain\<close>

text \<open>
  \<open>attempt\<close> is a \<open>try\<close> whose two handlers, \<open>except HTTPError\<close> and \<open>except Exception\<close>, log
  and fall through to the code after it: \<open>None\<close> stands for falling through.
\<close>

definition attempt :: "py_exception + weather_result \<Rightarrow> weather_result option" where
  "attempt m =
    (case m of
       Inr result \<Rightarrow> Some result
     | Inl HTTPError \<Rightarrow> None
     | Inl OtherException \<Rightarrow> None)"

definition get_weather_forecast ::
    "world \<Rightarrow> rat \<Rightarrow> rat \<Rightarrow> int \<Rightarrow> (string \<Rightarrow> ustr option) option
      \<Rightarrow> py_exception + weather_result" where
  "get_weather_forecast w latitude longitude days tool_context =
    (let days' = min (max days 1) 7;
         google_api_key = resolve_maps_api_key w tool_context;
         step1 = (if usable google_api_key
                  then attempt (get_weather_from_google w latitude longitude days'
                                  (get_or_empty google_api_key))
                  else None)
     in case step1 of
          Some result \<Rightarrow> Inr result
        | None \<Rightarrow>
           (let openweather_key = resolve_openweather_key w;
                step2 = (if usable openweather_key
                         then attempt (get_weather_from_openweathermap w latitude longitude
                                         days' (get_or_empty openweather_key))
                         else None)
            in case step2 of
                 Some result \<Rightarrow> Inr result
               | None \<Rightarrow> get_mock_weather_forecast w latitude longitude days'))"

section \<open>Venue search (venues.py)\<close>

record venue =
  name :: json
  address :: json
  distance :: ustr
  distance_meters :: int
  rating :: json
  place_id :: json
  types :: json
  location :: "rat \<times> rat"

text \<open>The value of \<open>error_message\<close>: a literal of the source, or \<open>str(e)\<close> of the exception
  that was caught.\<close>

datatype message = Literal ustr | ExceptionText py_exception

text \<open>The result: an error result has the key \<open>error_message\<close>; a success result has the
  keys \<open>sport_type\<close> and \<open>location\<close>, here the pair \<open>searched\<close>.\<close>

record venues_result = tool_result +
  venues :: "venue list"
  error_message :: "message option"
  searched :: "(ustr \<times> rat \<times> rat) option"

text \<open>Unknown place.\<close>

abbreviation unknown_place :: ustr where "unknown_place \<equiv> [0x672A, 0x77E5, 0x5730, 0x70B9]"

text \<open>\<open>_format_distance\<close>: whole metres below 1000 (\<open>int\<close> truncates towards zero), else
  kilometres with one decimal. The units are the characters for metre and kilometre.\<close>

definition py_int :: "rat \<Rightarrow> int" where
  "py_int x = (if 0 \<le> x then \<lfloor>x\<rfloor> else \<lceil>x\<rceil>)"

definition format_distance :: "world \<Rightarrow> rat \<Rightarrow> ustr" where
  "format_distance w d =
    (if d < 1000 then format_int w (py_int d) @ [0x7C73]
     else format_1f w (d / 1000) @ [0x516C, 0x91CC])"

text \<open>\<open>venue_info\<close> of a place that is a dictionary. \<open>math.radians\<close> raises \<open>TypeError\<close> for
  a coordinate that is not a number.\<close>

definition venue_info :: "world \<Rightarrow> rat \<Rightarrow> rat \<Rightarrow> json \<Rightarrow> json \<Rightarrow> py_exception + venue" where
  "venue_info w latitude longitude place pid =
    andthen (py_getitem place (U ''geometry'')) (\<lambda>g.
    andthen (py_getitem g (U ''location'')) (\<lambda>loc.
    andthen (py_getitem loc (U ''lat'')) (\<lambda>lat.
    andthen (py_getitem g (U ''location'')) (\<lambda>loc'.
    andthen (py_getitem loc' (U ''lng'')) (\<lambda>lng.
    andthen (number lat) (\<lambda>place_lat.
    andthen (number lng) (\<lambda>place_lng.
    andthen (calculate_distance w latitude longitude place_lat place_lng) (\<lambda>d.
    andthen (py_get place (U ''name'') (JStr unknown_place)) (\<lambda>nm.
    andthen (py_get place (U ''formatted_address'') (JStr [])) (\<lambda>fa.
    andthen (py_get place (U ''vicinity'') fa) (\<lambda>addr.
    andthen (py_get place (U ''rating'') (JInt 0)) (\<lambda>rt.
    andthen (py_get place (U ''types'') (JArr [])) (\<lambda>tys.
    Inr \<lparr>name = nm,
         address = addr,
         distance = format_distance w d,
         distance_meters = round_half_even d,
         rating = rt,
         place_id = pid,
         types = tys,
         location = (place_lat, place_lng)\<rparr>)))))))))))))"

text \<open>
  The loop over the places of one category. The state is \<open>all_venues\<close> and
  \<open>seen_place_ids\<close>. An exception leaves the loop for the handler of the category, which
  logs and continues with the next category: the state reached so far stays, with the
  identifier of the failing place already in \<open>seen_place_ids\<close>.
\<close>

type_synonym search_state = "venue list \<times> hkey list"

fun add_places :: "world \<Rightarrow> rat \<Rightarrow> rat \<Rightarrow> search_state \<Rightarrow> json list \<Rightarrow> search_state" where
  "add_places w latitude longitude st [] = st"
| "add_places w latitude longitude (all_venues, seen_place_ids) (place # places) =
    (case py_get place (U ''place_id'') JNull of
       Inl e \<Rightarrow> (all_venues, seen_place_ids)
     | Inr pid \<Rightarrow>
        (if \<not> truthy pid
         then add_places w latitude longitude (all_venues, seen_place_ids) places
         else
          (case hash_key pid of
             Inl e \<Rightarrow> (all_venues, seen_place_ids)
           | Inr k \<Rightarrow>
              (if k \<in> set seen_place_ids
               then add_places w latitude longitude (all_venues, seen_place_ids) places
               else
                (case venue_info w latitude longitude place pid of
                   Inl e \<Rightarrow> (all_venues, k # seen_place_ids)
                 | Inr venue_info' \<Rightarrow>
                    add_places w latitude longitude
                      (all_venues @ [venue_info'], k # seen_place_ids) places)))))"

text \<open>One category: the call of \<open>places_nearby\<close> and the loop over its \<open>results\<close>.\<close>

definition search_place_type ::
    "world \<Rightarrow> (rat \<times> rat \<Rightarrow> int \<Rightarrow> ustr \<Rightarrow> py_exception + json) \<Rightarrow> rat \<Rightarrow> rat \<Rightarrow> int
      \<Rightarrow> search_state \<Rightarrow> ustr \<Rightarrow> search_state" where
  "search_place_type w places_nearby latitude longitude radius st place_type =
    (case andthen (places_nearby (latitude, longitude) radius place_type) (\<lambda>places_result.
          andthen (py_get places_result (U ''results'') (JArr [])) py_iter) of
       Inl e \<Rightarrow> st
     | Inr places \<Rightarrow> add_places w latitude longitude st places)"

text \<open>
  The sort key \<open>(x["distance_meters"], -x["rating"])\<close>: negating a rating that is not a
  number raises \<open>TypeError\<close>. \<open>list.sort\<close> computes the key of every element once and
  sorts the elements by their keys; tuples are compared lexicographically, and the sort is
  stable, as \<open>sort_key\<close> is.
\<close>

definition venue_key :: "venue \<Rightarrow> py_exception + int \<times> rat" where
  "venue_key x = andthen (number (rating x)) (\<lambda>r. Inr (distance_meters x, - r))"

definition sort_venues :: "venue list \<Rightarrow> py_exception + venue list" where
  "sort_venues all_venues =
    andthen (for_each venue_key all_venues) (\<lambda>keys.
    Inr (map snd (sort_key fst (zip keys all_venues))))"

text \<open>The slice \<open>xs[:n]\<close>: a negative \<open>n\<close> counts from the end.\<close>

definition slice_to :: "'a list \<Rightarrow> int \<Rightarrow> 'a list" where
  "slice_to xs n = (if 0 \<le> n then take (nat n) xs else take (length xs - nat (- n)) xs)"

definition rank_venues :: "venue list \<Rightarrow> int \<Rightarrow> py_exception + venue list" where
  "rank_venues all_venues max_results =
    andthen (sort_venues all_venues) (\<lambda>sorted_venues. Inr (slice_to sorted_venues max_results))"

definition search_nearby_venues ::
    "world \<Rightarrow> rat \<Rightarrow> rat \<Rightarrow> ustr \<Rightarrow> int \<Rightarrow> int \<Rightarrow> (string \<Rightarrow> ustr option) option
      \<Rightarrow> venues_result" where
  "search_nearby_venues w latitude longitude sport radius max_results tool_context =
    (let maps_api_key = resolve_maps_api_key w tool_context in
     if \<not> usable maps_api_key
     then \<lparr>status = ''error'', venues = [],
           error_message = Some (Literal (U ''Google Maps API key not configured'')),
           searched = None\<rparr>
     else
      (case andthen (googlemaps_Client w (get_or_empty maps_api_key)) (\<lambda>places_nearby.
            let place_types = map_sport_to_place_types (str_lower w) sport;
                st = foldl (search_place_type w places_nearby latitude longitude radius)
                       ([], []) place_types
            in rank_venues (fst st) max_results) of
         Inr venues' \<Rightarrow>
           \<lparr>status = ''success'', venues = venues', error_message = None,
            searched = Some (sport, latitude, longitude)\<rparr>
       | Inl e \<Rightarrow>
           \<lparr>status = ''error'', venues = [], error_message = Some (ExceptionText e),
            searched = None\<rparr>))"

section \<open>A concrete environment\<close>

text \<open>
  An environment for concrete inputs: no credential is configured and no provider
  answers. Today is 4 November 2026, a Wednesday; timestamps are read in UTC (ordinal 719163
  is 1 January 1970).
\<close>

definition example_world :: world where
  "example_world =
    \<lparr>str_lower = ascii_lower,
     today = 739924,
     environ = (\<lambda>k. None),
     google_get = (\<lambda>latitude longitude days key. Inl OtherException),
     openweather_get = (\<lambda>latitude longitude cnt key. Inl OtherException),
     fromtimestamp = (\<lambda>t. Inr (719163 + \<lfloor>t / 86400\<rfloor>)),
     googlemaps_Client = (\<lambda>key. Inl OtherException),
     calculate_distance = (\<lambda>lat1 lon1 lat2 lon2. Inr 0),
     format_int = (\<lambda>n. []),
     format_1f = (\<lambda>x. [])\<rparr>"

text \<open>The entry the spec gives to a day without provider data: high 22, low 15, humidity 60,
  wind 10, probability 20, suitable, with the label "cloudy".\<close>

definition default_day :: "int \<Rightarrow> forecast_day" where
  "default_day d =
    \<lparr>date = d,
     day_of_week = week_days ! nat (weekday d),
     condition = cn_cloudy,
     condition_icon = icon_sun_cloud,
     temperature = \<lparr>high = 22, low = 15\<rparr>,
     humidity = 60,
     wind_speed = 10,
     precipitation_probability = 20,
     suitable_for_outdoor = True\<rparr>"

text \<open>
  An environment in which both providers are configured and both fail: the primary answers
  404 with the message of an unsupported location, the secondary answers 200 with a sample
  that lacks the key \<open>main\<close>.
\<close>

definition failing_world :: world where
  "failing_world =
    example_world
     \<lparr>environ :=
        (\<lambda>k. if k = ''GOOGLE_MAPS_API_KEY'' then Some (U ''primary-key'')
             else if k = ''OPENWEATHER_API_KEY'' then Some (U ''secondary-key'')
             else None),
      google_get :=
        (\<lambda>latitude longitude days key.
           Inr \<lparr>status_code = 404,
                response_text = U ''error'',
                json_body =
                  Some (JObj [(U ''error'',
                    JObj [(U ''message'',
                      JStr (U ''Information is not supported for this location.''))])])\<rparr>),
      openweather_get :=
        (\<lambda>latitude longitude cnt key.
           Inr \<lparr>status_code = 200,
                response_text = U ''list'',
                json_body =
                  Some (JObj [(U ''list'', JArr [JObj [(U ''dt'', JInt 1793750400)]])])\<rparr>)\<rparr>"

text \<open>
  An environment for the venue search: a maps key is configured, distances are measured along
  the meridian at 111000 metres per degree, and the provider knows three places. The
  category \<open>park\<close> returns A (500 m, rating 4.0) and B (500 m, rating 4.5); the category
  \<open>route\<close> returns A again, under another name, and C (300 m, rating 2.0).
\<close>

definition place_json :: "string \<Rightarrow> string \<Rightarrow> rat \<Rightarrow> json \<Rightarrow> json" where
  "place_json pid nm lat rt =
    JObj [(U ''place_id'', JStr (U pid)),
          (U ''name'', JStr (U nm)),
          (U ''geometry'',
             JObj [(U ''location'', JObj [(U ''lat'', JFloat lat), (U ''lng'', JInt (- 73))])]),
          (U ''rating'', rt)]"

definition example_places :: "rat \<times> rat \<Rightarrow> int \<Rightarrow> ustr \<Rightarrow> py_exception + json" where
  "example_places loc radius place_type =
    (if place_type = U ''park''
     then Inr (JObj [(U ''results'',
            JArr [place_json ''a'' ''A'' (40 + 500 / 111000) (JFloat 4.0),
                  place_json ''b'' ''B'' (40 + 500 / 111000) (JFloat 4.5)])])
     else if place_type = U ''route''
     then Inr (JObj [(U ''results'',
            JArr [place_json ''a'' ''A again'' (40 + 500 / 111000) (JFloat 1.0),
                  place_json ''c'' ''C'' (40 + 300 / 111000) (JFloat 2.0)])])
     else Inl OtherException)"

definition venue_world :: world where
  "venue_world =
    example_world
     \<lparr>environ := (\<lambda>k. if k = ''GOOGLE_MAPS_API_KEY'' then Some (U ''maps-key'') else None),
      googlemaps_Client := (\<lambda>key. Inr example_places),
      calculate_distance := (\<lambda>lat1 lon1 lat2 lon2. Inr (\<bar>lat2 - lat1\<bar> * 111000))\<rparr>"

definition example_venue :: "string \<Rightarrow> string \<Rightarrow> rat \<Rightarrow> rat \<Rightarrow> venue" where
  "example_venue pid nm metres rt =
    \<lparr>name = JStr (U nm), address = JStr [], distance = [0x7C73],
     distance_meters = round_half_even metres, rating = JFloat rt, place_id = JStr (U pid),
     types = JArr [], location = (40 + metres / 111000, - 73)\<rparr>"

text \<open>The invariant of the search loop: the venues collected so far have pairwise different
  place identifiers, each of them recorded in \<open>seen_place_ids\<close>.\<close>

definition unique_venues :: "search_state \<Rightarrow> bool" where
  "unique_venues st =
    (distinct (map (\<lambda>v. hash_key (place_id v)) (fst st)) \<and>
     (\<forall>v \<in> set (fst st). \<exists>k \<in> set (snd st). hash_key (place_id v) = Inr k))"

text \<open>The venues of the three places: A (500 m, rating 4.0), B (500 m, rating 4.5) and
  C (300 m, rating 2.0).\<close>

definition venue_A :: venue where
  "venue_A = example_venue ''a'' ''A'' 500 4.0"

definition venue_B :: venue where
  "venue_B = example_venue ''b'' ''B'' 500 4.5"

definition venue_C :: venue where
  "venue_C = example_venue ''c'' ''C'' 300 2.0"







section \<open>Properties of the lookup tables\<close>

subsection \<open>Helper lemmas\<close>

lemma py_in_Nil: "py_in [] s"
  by (induction s) auto

lemma find_value_in_set: "find P xs = Some x \<Longrightarrow> x \<in> set xs"
  by (auto simp add: find_Some_iff)

lemma merged_table:
  "dict_merge openweather_map general_map =
    [(U ''clear'', cn_sunny), (U ''clouds'', cn_cloudy), (U ''rain'', cn_rain),
     (U ''drizzle'', cn_light_rain), (U ''thunderstorm'', cn_thunderstorm),
     (U ''snow'', cn_snow), (U ''mist'', cn_fog), (U ''fog'', cn_fog), (U ''haze'', cn_fog),
     (U ''sunny'', cn_sunny), (U ''partly cloudy'', cn_cloudy), (U ''cloudy'', cn_cloudy),
     (U ''overcast'', cn_overcast), (U ''rainy'', cn_rain), (U ''showers'', cn_showers),
     (U ''snowy'', cn_snow), (U ''foggy'', cn_fog)]"
  by (simp add: dict_merge_def openweather_map_def general_map_def U_def)

lemma openweather_values:
  "map_of openweather_map k = Some v \<Longrightarrow> v \<in> set condition_vocabulary"
  by (auto simp add: openweather_map_def condition_vocabulary_def split: if_splits)

lemma general_values:
  "map_of general_map k = Some v \<Longrightarrow> v \<in> set condition_vocabulary"
  by (auto simp add: general_map_def condition_vocabulary_def split: if_splits)

lemma merged_values:
  "(k, v) \<in> set (dict_merge openweather_map general_map) \<Longrightarrow> v \<in> set condition_vocabulary"
  unfolding merged_table by (auto simp add: condition_vocabulary_def)

lemma map_condition_in_vocabulary:
  "map_condition_to_chinese lower s \<in> set condition_vocabulary"
proof -
  have d: "cn_cloudy \<in> set condition_vocabulary"
    by (simp add: condition_vocabulary_def)
  show ?thesis
    unfolding map_condition_to_chinese_def Let_def
    by (auto split: option.splits dest: openweather_values general_values
          dest!: find_value_in_set merged_values simp add: d)
qed

lemma renormalize_label:
  assumes "l \<in> set condition_vocabulary" and "lower l = l"
  shows "map_condition_to_chinese lower l = cn_cloudy"
proof -
  have "l = cn_sunny \<or> l = cn_cloudy \<or> l = cn_overcast \<or> l = cn_rain \<or> l = cn_light_rain
      \<or> l = cn_showers \<or> l = cn_thunderstorm \<or> l = cn_snow \<or> l = cn_fog"
    using assms(1) by (simp add: condition_vocabulary_def)
  then show ?thesis
    using assms(2)
    unfolding map_condition_to_chinese_def Let_def merged_table
    by (elim disjE) (simp_all add: openweather_map_def general_map_def U_def)
qed

lemma vocabulary_ascii_lower: "\<forall>l \<in> set condition_vocabulary. ascii_lower l = l"
  by (simp add: condition_vocabulary_def ascii_lower_def)

lemma normalize_clear: "map_condition_to_chinese ascii_lower (U ''clear'') = cn_sunny"
  by (simp add: map_condition_to_chinese_def Let_def openweather_map_def U_def ascii_lower_def)

lemma normalize_overcast: "map_condition_to_chinese ascii_lower (U ''overcast'') = cn_overcast"
  by (simp add: map_condition_to_chinese_def Let_def openweather_map_def general_map_def U_def
        ascii_lower_def)

lemma normalize_showers: "map_condition_to_chinese ascii_lower (U ''showers'') = cn_showers"
  by (simp add: map_condition_to_chinese_def Let_def openweather_map_def general_map_def U_def
        ascii_lower_def)

lemma icon_entry_missing:
  "l \<in> set condition_vocabulary \<Longrightarrow>
     (map_of icon_map l = None) = (l = cn_overcast \<or> l = cn_showers)"
  by (auto simp add: condition_vocabulary_def icon_map_def)

lemma icon_values:
  "get_weather_icon cn_sunny = icon_sun"
  "get_weather_icon cn_cloudy = icon_sun_cloud"
  "get_weather_icon cn_overcast = icon_default"
  "get_weather_icon cn_showers = icon_default"
  by (simp_all add: get_weather_icon_def icon_map_def)

lemma gear_status: "status (get_recommended_gear lower s) = ''success''"
  by (simp add: get_recommended_gear_def Let_def)

lemma gear_sport_type: "sport_type (get_recommended_gear lower s) = s"
  by (simp add: get_recommended_gear_def Let_def)

lemma gear_from_table_or_default:
  "recommended_gear (get_recommended_gear lower s) \<in> insert default_gear (snd ` set GEAR_MAP)"
proof -
  have m: "\<And>k g. map_of GEAR_MAP k = Some g \<Longrightarrow> g \<in> snd ` set GEAR_MAP"
    by (metis map_of_SomeD image_eqI snd_conv)
  have f: "\<And>P x. find P GEAR_MAP = Some x \<Longrightarrow> snd x \<in> snd ` set GEAR_MAP"
    by (auto dest: find_value_in_set)
  let ?P = "\<lambda>(key, value). gear_matches lower (lower s) key"
  show ?thesis
  proof (cases "map_of GEAR_MAP s")
    case (Some g)
    then show ?thesis
      using m [OF Some] by (simp add: get_recommended_gear_def Let_def)
  next
    case n1: None
    show ?thesis
    proof (cases "map_of GEAR_MAP (lower s)")
      case (Some g)
      then show ?thesis
        using n1 m [OF Some] by (simp add: get_recommended_gear_def Let_def)
    next
      case n2: None
      show ?thesis
      proof (cases "find ?P GEAR_MAP")
        case None
        then show ?thesis
          using n1 n2 by (simp add: get_recommended_gear_def Let_def)
      next
        case (Some x)
        then show ?thesis
          using n1 n2 f [OF Some] by (simp add: get_recommended_gear_def Let_def)
      qed
    qed
  qed
qed

lemma gear_default_when_unmatched:
  assumes "map_of GEAR_MAP s = None" and "map_of GEAR_MAP (lower s) = None"
    and "\<forall>key \<in> set (map fst GEAR_MAP). \<not> gear_matches lower (lower s) key"
  shows "recommended_gear (get_recommended_gear lower s) = default_gear"
proof -
  from assms(3)
  have "find (\<lambda>(key, value). gear_matches lower (lower s) key) GEAR_MAP = None"
    by (auto simp add: find_None_iff)
  with assms(1,2) show ?thesis
    by (simp add: get_recommended_gear_def Let_def)
qed

lemma underwater_hockey_unmatched:
  "map_of GEAR_MAP (U ''underwater hockey'') = None \<and>
   map_of GEAR_MAP (ascii_lower (U ''underwater hockey'')) = None \<and>
   (\<forall>key \<in> set (map fst GEAR_MAP).
      \<not> gear_matches ascii_lower (ascii_lower (U ''underwater hockey'')) key)"
  by (simp add: GEAR_MAP_def U_def ascii_lower_def gear_matches_def)

subsection \<open>Gear lookup\<close>

text \<open>
  C7. \<open>get_recommended_gear\<close> is total and always succeeds: for every sport label (and
  every lowering function) the status is "success", the label is echoed and the gear set is
  one of the table or the generic default. When the label matches no key exactly, no key
  after lowering, and no key by substring in either direction, the gear set is the generic
  default; "underwater hockey" is such a label.
\<close>

theorem get_recommended_gear_always_succeeds:
  "status (get_recommended_gear lower s) = ''success'' \<and>
   sport_type (get_recommended_gear lower s) = s \<and>
   recommended_gear (get_recommended_gear lower s) \<in> insert default_gear (snd ` set GEAR_MAP) \<and>
   (map_of GEAR_MAP s = None \<and> map_of GEAR_MAP (lower s) = None \<and>
    (\<forall>key \<in> set (map fst GEAR_MAP). \<not> gear_matches lower (lower s) key)
      \<longrightarrow> recommended_gear (get_recommended_gear lower s) = default_gear) \<and>
   recommended_gear (get_recommended_gear ascii_lower (U ''underwater hockey'')) = default_gear"
proof (intro conjI impI)
  show "status (get_recommended_gear lower s) = ''success''"
    by (rule gear_status)
  show "sport_type (get_recommended_gear lower s) = s"
    by (rule gear_sport_type)
  show "recommended_gear (get_recommended_gear lower s)
          \<in> insert default_gear (snd ` set GEAR_MAP)"
    by (rule gear_from_table_or_default)
  show "recommended_gear (get_recommended_gear lower s) = default_gear"
    if "map_of GEAR_MAP s = None \<and> map_of GEAR_MAP (lower s) = None \<and>
        (\<forall>key \<in> set (map fst GEAR_MAP). \<not> gear_matches lower (lower s) key)"
    using that by (intro gear_default_when_unmatched) simp_all
  show "recommended_gear (get_recommended_gear ascii_lower (U ''underwater hockey''))
          = default_gear"
    using underwater_hockey_unmatched by (intro gear_default_when_unmatched) simp_all
qed

theorem get_recommended_gear_always_succeeds_witness:
  "map_of GEAR_MAP (U ''underwater hockey'') = None \<and>
   map_of GEAR_MAP (ascii_lower (U ''underwater hockey'')) = None \<and>
   list_all (\<lambda>key. \<not> gear_matches ascii_lower (ascii_lower (U ''underwater hockey'')) key)
     (map fst GEAR_MAP) \<and>
   status (get_recommended_gear ascii_lower (U ''underwater hockey'')) = ''success'' \<and>
   recommended_gear (get_recommended_gear ascii_lower (U ''underwater hockey'')) = default_gear"
  using get_recommended_gear_always_succeeds [of ascii_lower "U ''underwater hockey''"]
    underwater_hockey_unmatched
  unfolding list_all_iff
  by blast

text \<open>
  C10. For the empty sport label the keyword loop matches the first key of each table, since
  the empty string is a substring of every key: the gear is the running gear of the first
  key (long-distance running), not the generic default, and the place types are park and
  route, not the default gym and park. Lowering the empty string gives the empty string.
\<close>

theorem empty_label_matches_first_key:
  assumes "lower [] = []"
  shows "recommended_gear (get_recommended_gear lower []) = running_gear \<and>
         map_of GEAR_MAP sport_long_run = Some running_gear \<and>
         fst (hd GEAR_MAP) = sport_long_run \<and>
         running_gear \<noteq> default_gear \<and>
         map_sport_to_place_types lower [] = [U ''park'', U ''route''] \<and>
         fst (hd sport_mapping) = sport_long_run \<and>
         [U ''park'', U ''route''] \<noteq> [U ''gym'', U ''park'']"
proof -
  have "recommended_gear (get_recommended_gear lower []) = running_gear"
    using assms
    by (simp add: get_recommended_gear_def Let_def GEAR_MAP_def U_def gear_matches_def py_in_Nil)
  moreover have "map_of GEAR_MAP sport_long_run = Some running_gear"
    by (simp add: GEAR_MAP_def)
  moreover have "fst (hd GEAR_MAP) = sport_long_run"
    by (simp add: GEAR_MAP_def)
  moreover have "running_gear \<noteq> default_gear"
    by (simp add: running_gear_def default_gear_def)
  moreover have "map_sport_to_place_types lower [] = [U ''park'', U ''route'']"
    using assms
    by (simp add: map_sport_to_place_types_def Let_def sport_mapping_def U_def py_in_Nil)
  moreover have "fst (hd sport_mapping) = sport_long_run"
    by (simp add: sport_mapping_def)
  moreover have "[U ''park'', U ''route''] \<noteq> [U ''gym'', U ''park'']"
    by (simp add: U_def)
  ultimately show ?thesis by blast
qed

theorem empty_label_matches_first_key_witness:
  "ascii_lower [] = [] \<and>
   recommended_gear (get_recommended_gear ascii_lower []) = running_gear \<and>
   map_sport_to_place_types ascii_lower [] = [U ''park'', U ''route'']"
proof -
  have h: "ascii_lower [] = []"
    by (simp add: ascii_lower_def)
  from empty_label_matches_first_key [of ascii_lower] h show ?thesis by blast
qed

subsection \<open>Condition normalizer\<close>

text \<open>
  C8 (as stated, refuted). The normalizer is not idempotent on its output: "clear" is
  normalized to the label "sunny", and normalizing that label again gives "cloudy", with a
  different icon.
\<close>

theorem normalize_not_idempotent_counterexample:
  "map_condition_to_chinese ascii_lower (map_condition_to_chinese ascii_lower (U ''clear''))
     \<noteq> map_condition_to_chinese ascii_lower (U ''clear'') \<and>
   get_weather_icon
     (map_condition_to_chinese ascii_lower (map_condition_to_chinese ascii_lower (U ''clear'')))
     \<noteq> get_weather_icon (map_condition_to_chinese ascii_lower (U ''clear''))"
proof -
  have "map_condition_to_chinese ascii_lower cn_sunny = cn_cloudy"
    using renormalize_label [of cn_sunny ascii_lower]
    by (simp add: condition_vocabulary_def ascii_lower_def)
  then show ?thesis
    by (simp add: normalize_clear icon_values)
qed

text \<open>
  C8 (amended). The tables of the normalizer are keyed by English words only, so a label it
  has produced matches no key and is sent to the default: for every raw input, normalizing
  the normalized label gives "cloudy", whose icon is the sun behind a cloud. Normalizing
  again returns the same label exactly when that label is "cloudy". The labels are Chinese
  and have no case: lowering leaves them unchanged.
\<close>

theorem renormalize_gives_default:
  assumes "\<forall>l \<in> set condition_vocabulary. lower l = l"
  shows "map_condition_to_chinese lower (map_condition_to_chinese lower s) = cn_cloudy \<and>
         get_weather_icon (map_condition_to_chinese lower (map_condition_to_chinese lower s))
           = icon_sun_cloud \<and>
         (map_condition_to_chinese lower (map_condition_to_chinese lower s)
            = map_condition_to_chinese lower s
          \<longleftrightarrow> map_condition_to_chinese lower s = cn_cloudy)"
proof -
  have "map_condition_to_chinese lower (map_condition_to_chinese lower s) = cn_cloudy"
    using assms renormalize_label map_condition_in_vocabulary by blast
  then show ?thesis
    by (simp add: icon_values) metis
qed

theorem renormalize_gives_default_witness:
  "list_all (\<lambda>l. ascii_lower l = l) condition_vocabulary \<and>
   map_condition_to_chinese ascii_lower (map_condition_to_chinese ascii_lower (U ''Rain''))
     = cn_cloudy"
  using renormalize_gives_default [OF vocabulary_ascii_lower, of "U ''Rain''"]
    vocabulary_ascii_lower
  unfolding list_all_iff
  by blast

text \<open>
  C9 (as stated, refuted). "overcast" is normalized to the label "overcast", which has no
  entry in the icon table: the lookup returns the default icon.
\<close>

theorem icon_default_used_counterexample:
  "map_of icon_map (map_condition_to_chinese ascii_lower (U ''overcast'')) = None \<and>
   get_weather_icon (map_condition_to_chinese ascii_lower (U ''overcast'')) = icon_default"
  by (simp add: normalize_overcast icon_values) (simp add: icon_map_def)

text \<open>
  C9 (amended). A label produced by the normalizer lacks an entry in the icon table exactly
  when it is "overcast" or "showers"; both are produced (for the inputs "overcast" and
  "showers") and get the default icon. Every other label of the normalizer has its own entry.
\<close>

theorem icon_entry_except_overcast_showers:
  "(map_of icon_map (map_condition_to_chinese lower s) = None)
     = (map_condition_to_chinese lower s = cn_overcast \<or>
        map_condition_to_chinese lower s = cn_showers) \<and>
   map_condition_to_chinese ascii_lower (U ''overcast'') = cn_overcast \<and>
   map_condition_to_chinese ascii_lower (U ''showers'') = cn_showers \<and>
   get_weather_icon cn_overcast = icon_default \<and>
   get_weather_icon cn_showers = icon_default"
  using icon_entry_missing [OF map_condition_in_vocabulary, of lower s]
    normalize_overcast normalize_showers icon_values(3,4)
  by blast


section \<open>Properties of the weather forecast\<close>

subsection \<open>Helper lemmas\<close>

lemma andthen_Inr_iff: "andthen m f = Inr y \<longleftrightarrow> (\<exists>x. m = Inr x \<and> f x = Inr y)"
  by (cases m) (simp_all add: andthen_def)

lemma andthen_InrE:
  assumes "andthen m f = Inr y"
  obtains x where "m = Inr x" and "f x = Inr y"
  using assms by (auto simp add: andthen_Inr_iff)

lemma andthen_Inr [simp]: "andthen (Inr x) f = f x"
  by (simp add: andthen_def)

lemma andthen_Inl [simp]: "andthen (Inl e) f = Inl e"
  by (simp add: andthen_def)

lemma for_each_length: "for_each f xs = Inr ys \<Longrightarrow> length ys = length xs"
  by (induction xs arbitrary: ys) (auto simp add: andthen_Inr_iff)

lemma for_each_nth: "for_each f xs = Inr ys \<Longrightarrow> i < length xs \<Longrightarrow> f (xs ! i) = Inr (ys ! i)"
proof (induction xs arbitrary: ys i)
  case Nil
  then show ?case by simp
next
  case (Cons x xs)
  then show ?case
    by (cases i) (auto simp add: andthen_Inr_iff)
qed

lemma for_each_set: "for_each f xs = Inr ys \<Longrightarrow> y \<in> set ys \<Longrightarrow> \<exists>x \<in> set xs. f x = Inr y"
  by (induction xs arbitrary: ys) (auto simp add: andthen_Inr_iff)

lemma for_each_total: "(\<And>x. x \<in> set xs \<Longrightarrow> \<exists>y. f x = Inr y) \<Longrightarrow> \<exists>ys. for_each f xs = Inr ys"
proof (induction xs)
  case Nil
  then show ?case by simp
next
  case (Cons x xs)
  then obtain y ys where "f x = Inr y" "for_each f xs = Inr ys"
    by (meson list.set_intros)
  then show ?case by simp
qed

lemma weekday_range: "0 \<le> weekday d \<and> weekday d < 7"
  by (simp add: weekday_def)

lemma day_of_week_total:
  "get_day_of_week_cn (weekday d) = Inr (week_days ! nat (weekday d))"
  using weekday_range [of d] by (simp add: get_day_of_week_cn_def)

lemma forecast_entry_condition:
  "forecast_entry d (h, l, c, hum, ws, p, s) = Inr e \<Longrightarrow> condition e = c \<and> date e = d \<and> suitable_for_outdoor e = s"
  by (auto simp add: forecast_entry_def andthen_Inr_iff)

lemma google_condition_vocabulary:
  "google_condition w day_data = Inr c \<Longrightarrow> c \<in> set condition_vocabulary"
  by (auto simp add: google_condition_def andthen_Inr_iff map_condition_in_vocabulary
        split: json.splits)

lemma google_fields_vocabulary:
  "google_fields w day_data = Inr (h, l, c, hum, ws, p, s) \<Longrightarrow> c \<in> set condition_vocabulary"
  by (auto simp add: google_fields_def andthen_Inr_iff dest: google_condition_vocabulary)

lemma cloudy_in_vocabulary: "cn_cloudy \<in> set condition_vocabulary"
  by (simp add: condition_vocabulary_def)

lemma google_day_vocabulary:
  assumes "google_day w df n i = Inr e"
  shows "condition e \<in> set condition_vocabulary"
proof -
  from assms obtain flds where
    f: "(if i < n then andthen (py_index df i) (google_fields w) else Inr default_fields) = Inr flds"
    and e: "forecast_entry (today w + int i) flds = Inr e"
    by (auto simp add: google_day_def andthen_Inr_iff)
  obtain h l c hum ws p s where flds: "flds = (h, l, c, hum, ws, p, s)"
    by (cases flds) auto
  have "c \<in> set condition_vocabulary"
  proof (cases "i < n")
    case True
    with f flds show ?thesis
      by (auto simp add: andthen_Inr_iff dest: google_fields_vocabulary)
  next
    case False
    with f flds show ?thesis
      by (simp add: default_fields_def condition_vocabulary_def)
  qed
  with e flds show ?thesis
    by (auto dest: forecast_entry_condition)
qed

lemma google_not_found_raises: "google_not_found w r \<noteq> Inr x"
proof
  assume "google_not_found w r = Inr x"
  then obtain error_msg where
    "(case error_msg of
        JStr s \<Rightarrow>
          (if py_in (U ''not supported for this location'') (str_lower w s) \<or>
              py_in (U ''try a different location'') (str_lower w s)
           then Inl HTTPError else Inl HTTPError)
      | _ \<Rightarrow> Inl OtherException) = (Inr x :: py_exception + weather_result)"
    unfolding google_not_found_def andthen_Inr_iff by blast
  then show False
    by (cases error_msg) (simp_all split: if_splits)
qed

lemma google_result:
  assumes "get_weather_from_google w la lo days k = Inr r"
  shows "status r = ''success'' \<and> length (forecast r) = nat days \<and>
         (\<forall>e \<in> set (forecast r). condition e \<in> set condition_vocabulary)"
proof -
  from assms obtain df n fl where
    m: "for_each (google_day w df n) [0..<nat days] = Inr fl"
    and r: "r = \<lparr>status = ''success'', forecast = fl\<rparr>"
    by (auto simp add: get_weather_from_google_def google_not_found_raises andthen_Inr_iff
          split: if_splits)
  have "length fl = nat days"
    using for_each_length [OF m] by simp
  moreover have "\<forall>e \<in> set fl. condition e \<in> set condition_vocabulary"
    using for_each_set [OF m] google_day_vocabulary by blast
  ultimately show ?thesis
    using r by simp
qed

lemma owm_fields_InrD:
  assumes "owm_fields w b = Inr flds"
  obtains ts high_temp low_temp hs avg_humidity avg_wind ps c where
    "numbers (temps b) = Inr ts" "py_max ts = Inr high_temp" "py_min ts = Inr low_temp"
    "numbers (humidities b) = Inr hs" "py_mean hs = Inr avg_humidity"
    "py_mean (wind_speeds b) = Inr avg_wind"
    "numbers (precipitation b) = Inr ps"
    "main_condition_of (conditions b) = Inr (KStr c)"
    "flds = (JFloat high_temp, JFloat low_temp, map_condition_to_chinese (str_lower w) c,
             JFloat avg_humidity, JFloat avg_wind,
             JInt (if 0 < sum_list ps then min (round_half_even (sum_list ps * 20)) 100 else 20),
             c \<in> set [U ''Clear'', U ''Clouds''] \<and> sum_list ps < 1)"
proof -
  from assms obtain ts high_temp low_temp hs avg_humidity avg_wind ps mc where
    a: "numbers (temps b) = Inr ts" "py_max ts = Inr high_temp" "py_min ts = Inr low_temp"
       "numbers (humidities b) = Inr hs" "py_mean hs = Inr avg_humidity"
       "py_mean (wind_speeds b) = Inr avg_wind"
       "numbers (precipitation b) = Inr ps"
       "main_condition_of (conditions b) = Inr mc"
    and last: "(case mc of
        KStr s \<Rightarrow>
          Inr (JFloat high_temp, JFloat low_temp, map_condition_to_chinese (str_lower w) s,
               JFloat avg_humidity, JFloat avg_wind,
               JInt (if 0 < sum_list ps then min (round_half_even (sum_list ps * 20)) 100
                     else 20),
               s \<in> set [U ''Clear'', U ''Clouds''] \<and> sum_list ps < 1)
      | _ \<Rightarrow> Inl OtherException) = Inr flds"
    unfolding owm_fields_def andthen_Inr_iff Let_def by blast
  from last obtain c where "mc = KStr c"
    by (cases mc) simp_all
  with a last that show thesis
    by simp
qed

lemma owm_fields_vocabulary:
  "owm_fields w b = Inr (h, l, c, hum, ws, p, s) \<Longrightarrow> c \<in> set condition_vocabulary"
  by (erule owm_fields_InrD) (simp add: map_condition_in_vocabulary)

lemma owm_day_vocabulary:
  assumes "owm_day w dfs i = Inr e"
  shows "condition e \<in> set condition_vocabulary"
proof -
  from assms obtain flds where
    f: "(case map_of dfs (today w + int i) of
           Some day_data \<Rightarrow> owm_fields w day_data
         | None \<Rightarrow> Inr default_fields) = Inr flds"
    and e: "forecast_entry (today w + int i) flds = Inr e"
    by (auto simp add: owm_day_def Let_def andthen_Inr_iff)
  obtain h l c hum ws p s where flds: "flds = (h, l, c, hum, ws, p, s)"
    by (cases flds) auto
  have "c \<in> set condition_vocabulary"
  proof (cases "map_of dfs (today w + int i)")
    case None
    with f flds show ?thesis
      by (simp add: default_fields_def condition_vocabulary_def)
  next
    case (Some b)
    with f flds show ?thesis
      by (auto dest: owm_fields_vocabulary)
  qed
  with e flds show ?thesis
    by (auto dest: forecast_entry_condition)
qed

lemma owm_result:
  assumes "get_weather_from_openweathermap w la lo days k = Inr r"
  shows "status r = ''success'' \<and> length (forecast r) = nat days \<and>
         (\<forall>e \<in> set (forecast r). condition e \<in> set condition_vocabulary)"
proof -
  from assms obtain dfs fl where
    m: "for_each (owm_day w dfs) [0..<nat days] = Inr fl"
    and r: "r = \<lparr>status = ''success'', forecast = fl\<rparr>"
    by (auto simp add: get_weather_from_openweathermap_def andthen_Inr_iff)
  have "length fl = nat days"
    using for_each_length [OF m] by simp
  moreover have "\<forall>e \<in> set fl. condition e \<in> set condition_vocabulary"
    using for_each_set [OF m] owm_day_vocabulary by blast
  ultimately show ?thesis
    using r by simp
qed

lemma mock_conditions_vocabulary:
  "mock_conditions ! (i mod length mock_conditions) \<in> set condition_vocabulary"
proof -
  have "i mod 7 < 7" by simp
  then have "i mod 7 \<in> {0, 1, 2, 3, 4, 5, 6}" by auto
  then show ?thesis
    by (auto simp add: mock_conditions_def condition_vocabulary_def)
qed

lemma mock_day_total:
  "\<exists>e. mock_day w i = Inr e \<and> condition e \<in> set condition_vocabulary"
  using mock_conditions_vocabulary [of i]
  by (simp add: mock_day_def Let_def day_of_week_total)

lemma mock_result:
  "\<exists>fl. get_mock_weather_forecast w la lo days = Inr \<lparr>status = ''success'', forecast = fl\<rparr> \<and>
        length fl = nat days \<and> (\<forall>e \<in> set fl. condition e \<in> set condition_vocabulary)"
proof -
  obtain fl where m: "for_each (mock_day w) [0..<nat days] = Inr fl"
    using for_each_total [of "[0..<nat days]" "mock_day w"] mock_day_total by blast
  have "length fl = nat days"
    using for_each_length [OF m] by simp
  moreover have "\<forall>e \<in> set fl. condition e \<in> set condition_vocabulary"
  proof
    fix e assume "e \<in> set fl"
    then obtain i where "mock_day w i = Inr e"
      using for_each_set [OF m] by blast
    then show "condition e \<in> set condition_vocabulary"
      using mock_day_total [of w i] by auto
  qed
  ultimately show ?thesis
    using m by (simp add: get_mock_weather_forecast_def)
qed

lemma attempt_Some: "attempt m = Some r \<longleftrightarrow> m = Inr r"
  by (cases m) (auto simp add: attempt_def split: py_exception.splits)

lemma attempt_None: "attempt m = None \<longleftrightarrow> isl m"
  by (cases m) (auto simp add: attempt_def split: py_exception.splits)

lemma clamp_range: "1 \<le> min (max days 1) (7::int) \<and> min (max days 1) (7::int) \<le> 7"
  by auto

lemma forecast_shape:
  "\<exists>fl. get_weather_forecast w la lo days ctx = Inr \<lparr>status = ''success'', forecast = fl\<rparr> \<and>
        length fl = nat (min (max days 1) 7) \<and>
        (\<forall>e \<in> set fl. condition e \<in> set condition_vocabulary)"
proof -
  let ?d = "min (max days 1) 7"
  let ?s1 = "if usable (resolve_maps_api_key w ctx)
             then attempt (get_weather_from_google w la lo ?d
                    (get_or_empty (resolve_maps_api_key w ctx)))
             else None"
  let ?s2 = "if usable (resolve_openweather_key w)
             then attempt (get_weather_from_openweathermap w la lo ?d
                    (get_or_empty (resolve_openweather_key w)))
             else None"
  have shape: "\<exists>fl. r = \<lparr>status = ''success'', forecast = fl\<rparr> \<and> length fl = nat ?d \<and>
        (\<forall>e \<in> set fl. condition e \<in> set condition_vocabulary)"
    if "status r = ''success'' \<and> length (forecast r) = nat ?d \<and>
        (\<forall>e \<in> set (forecast r). condition e \<in> set condition_vocabulary)" for r :: weather_result
    using that by (cases r) auto
  show ?thesis
  proof (cases ?s1)
    case (Some r)
    then have "get_weather_from_google w la lo ?d (get_or_empty (resolve_maps_api_key w ctx)) = Inr r"
      by (simp add: attempt_Some split: if_splits)
    from google_result [OF this] Some show ?thesis
      using shape [of r] by (simp add: get_weather_forecast_def Let_def)
  next
    case n1: None
    show ?thesis
    proof (cases ?s2)
      case (Some r)
      then have "get_weather_from_openweathermap w la lo ?d
                   (get_or_empty (resolve_openweather_key w)) = Inr r"
        by (simp add: attempt_Some split: if_splits)
      from owm_result [OF this] Some n1 show ?thesis
        using shape [of r] by (simp add: get_weather_forecast_def Let_def)
    next
      case n2: None
      with n1 have "get_weather_forecast w la lo days ctx = get_mock_weather_forecast w la lo ?d"
        by (simp add: get_weather_forecast_def Let_def)
      then show ?thesis
        using mock_result [of w la lo ?d] by simp
    qed
  qed
qed

lemma upt3: "[0..<3] = [0, 1, 2]"
  by (simp add: upt_rec)

lemma mock_three:
  "get_mock_weather_forecast w la lo 3 =
     Inr \<lparr>status = ''success'',
          forecast =
            [\<lparr>date = today w, day_of_week = week_days ! nat (weekday (today w)),
              condition = cn_sunny, condition_icon = icon_sun,
              temperature = \<lparr>high = 23, low = 18\<rparr>, humidity = 60, wind_speed = 8,
              precipitation_probability = 20, suitable_for_outdoor = True\<rparr>,
             \<lparr>date = today w + 1, day_of_week = week_days ! nat (weekday (today w + 1)),
              condition = cn_cloudy, condition_icon = icon_sun_cloud,
              temperature = \<lparr>high = 25, low = 20\<rparr>, humidity = 65, wind_speed = 10,
              precipitation_probability = 20, suitable_for_outdoor = True\<rparr>,
             \<lparr>date = today w + 2, day_of_week = week_days ! nat (weekday (today w + 2)),
              condition = cn_sunny, condition_icon = icon_sun,
              temperature = \<lparr>high = 27, low = 22\<rparr>, humidity = 70, wind_speed = 12,
              precipitation_probability = 20, suitable_for_outdoor = True\<rparr>]\<rparr>"
  by (simp add: get_mock_weather_forecast_def upt3 mock_day_def Let_def day_of_week_total
        mock_conditions_def get_weather_icon_def icon_map_def)

lemma no_credentials_mock:
  assumes "\<not> usable (resolve_maps_api_key w ctx)" and "\<not> usable (resolve_openweather_key w)"
  shows "get_weather_forecast w la lo days ctx
           = get_mock_weather_forecast w la lo (min (max days 1) 7)"
  using assms by (simp add: get_weather_forecast_def Let_def)

lemma example_world_no_credentials:
  "\<not> usable (resolve_maps_api_key example_world None)"
  "\<not> usable (resolve_openweather_key example_world)"
  by (simp_all add: resolve_maps_api_key_def resolve_openweather_key_def usable_def
        example_world_def get_or_empty_def)

lemma example_days: "week_days ! nat (weekday 739924) = [0x5468, 0x4E09]"
  "week_days ! nat (weekday 739925) = [0x5468, 0x56DB]"
  "week_days ! nat (weekday 739926) = [0x5468, 0x4E94]"
  by (simp_all add: weekday_def week_days_def)

lemma example_today: "today example_world = 739924"
  by (simp add: example_world_def)

lemma failing_google:
  "get_weather_from_google failing_world 40 (- 73) 3 (U ''primary-key'') = Inl HTTPError"
  by (simp add: get_weather_from_google_def failing_world_def example_world_def
        google_not_found_def response_json_def U_def)

lemma failing_owm:
  "get_weather_from_openweathermap failing_world 40 (- 73) 3 (U ''secondary-key'')
     = Inl OtherException"
  by (simp add: get_weather_from_openweathermap_def failing_world_def example_world_def
        raise_for_status_def response_json_def owm_sample_def number_def U_def)

lemma failing_keys:
  "resolve_maps_api_key failing_world None = Some (U ''primary-key'')"
  "resolve_openweather_key failing_world = Some (U ''secondary-key'')"
  by (simp_all add: resolve_maps_api_key_def resolve_openweather_key_def usable_def
        failing_world_def example_world_def U_def)

lemma padding_google:
  "n \<le> i \<Longrightarrow> google_day w df n i = Inr (default_day (today w + int i))"
  by (simp add: google_day_def default_fields_def forecast_entry_def day_of_week_total
        py_round_def number_def round_half_even_def default_day_def get_weather_icon_def
        icon_map_def)

lemma padding_owm:
  "map_of dfs (today w + int i) = None \<Longrightarrow>
     owm_day w dfs i = Inr (default_day (today w + int i))"
  by (simp add: owm_day_def Let_def default_fields_def forecast_entry_def day_of_week_total
        py_round_def number_def round_half_even_def default_day_def get_weather_icon_def
        icon_map_def)

lemma fallback_chain:
  "get_weather_forecast w la lo days ctx =
    (let d = min (max days 1) 7;
         g = get_weather_from_google w la lo d (get_or_empty (resolve_maps_api_key w ctx));
         ow = get_weather_from_openweathermap w la lo d
                (get_or_empty (resolve_openweather_key w))
     in if usable (resolve_maps_api_key w ctx) \<and> \<not> isl g then g
        else if usable (resolve_openweather_key w) \<and> \<not> isl ow then ow
        else get_mock_weather_forecast w la lo d)"
proof -
  have a: "(case attempt m of Some result \<Rightarrow> Inr result | None \<Rightarrow> x) = (if isl m then x else m)"
    for m and x :: "py_exception + weather_result"
    by (cases m) (auto simp add: attempt_def split: py_exception.splits)
  show ?thesis
    by (simp add: get_weather_forecast_def Let_def a)
qed

subsection \<open>The fallback chain never fails\<close>

text \<open>
  C1. For every environment (credentials, provider answers), every latitude, longitude and
  days, \<open>get_weather_forecast\<close> returns, with status "success" and a forecast list; no
  exception and no other status reaches the caller. The result is that of the primary
  provider when its key is configured and it returns; else that of the secondary provider
  when its key is configured and it returns; else the synthetic forecast. A provider that
  raises (an HTTP error, the 404 of an unsupported location, a payload that cannot be
  decoded or lacks a key, any other exception) falls through to the next tier.
\<close>

theorem get_weather_forecast_never_fails:
  "(\<exists>fl. get_weather_forecast w la lo days ctx = Inr \<lparr>status = ''success'', forecast = fl\<rparr>) \<and>
   get_weather_forecast w la lo days ctx =
    (let d = min (max days 1) 7;
         g = get_weather_from_google w la lo d (get_or_empty (resolve_maps_api_key w ctx));
         ow = get_weather_from_openweathermap w la lo d
                (get_or_empty (resolve_openweather_key w))
     in if usable (resolve_maps_api_key w ctx) \<and> \<not> isl g then g
        else if usable (resolve_openweather_key w) \<and> \<not> isl ow then ow
        else get_mock_weather_forecast w la lo d)"
  using forecast_shape [of w la lo days ctx] fallback_chain [of w la lo days ctx]
  by blast

theorem get_weather_forecast_never_fails_witness:
  "usable (resolve_maps_api_key failing_world None) \<and>
   get_weather_from_google failing_world 40 (- 73) 3 (U ''primary-key'') = Inl HTTPError \<and>
   usable (resolve_openweather_key failing_world) \<and>
   get_weather_from_openweathermap failing_world 40 (- 73) 3 (U ''secondary-key'')
     = Inl OtherException \<and>
   get_weather_forecast failing_world 40 (- 73) 3 None
     = get_mock_weather_forecast failing_world 40 (- 73) 3"
proof -
  have k: "usable (resolve_maps_api_key failing_world None)"
    "usable (resolve_openweather_key failing_world)"
    by (simp_all add: failing_keys usable_def U_def)
  have "get_weather_forecast failing_world 40 (- 73) 3 None =
    (let d = min (max 3 1) 7;
         g = get_weather_from_google failing_world 40 (- 73) d
               (get_or_empty (resolve_maps_api_key failing_world None));
         ow = get_weather_from_openweathermap failing_world 40 (- 73) d
                (get_or_empty (resolve_openweather_key failing_world))
     in if usable (resolve_maps_api_key failing_world None) \<and> \<not> isl g then g
        else if usable (resolve_openweather_key failing_world) \<and> \<not> isl ow then ow
        else get_mock_weather_forecast failing_world 40 (- 73) d)"
    using get_weather_forecast_never_fails [of failing_world 40 "- 73" 3 None]
    by (rule conjunct2)
  then have "get_weather_forecast failing_world 40 (- 73) 3 None
               = get_mock_weather_forecast failing_world 40 (- 73) 3"
    by (simp add: failing_keys get_or_empty_def failing_google failing_owm)
  with k failing_google failing_owm show ?thesis
    by blast
qed

subsection \<open>Length and vocabulary of the forecast\<close>

text \<open>
  C2. For every integer \<open>days\<close> the forecast has exactly \<open>min (max days 1) 7\<close> entries,
  whatever tier produced it and however many data points the provider returned, and the
  condition of every entry is one of the labels of the normalizer. A \<open>days\<close> outside 1..7
  gives the result of the nearest bound. A day for which the primary provider returned no
  data, or for which the secondary provider has no bucket, gets the default entry. The
  outdoor flag of an entry is a boolean by its type.
\<close>

theorem forecast_length_and_vocabulary:
  "(\<exists>fl. get_weather_forecast w la lo days ctx = Inr \<lparr>status = ''success'', forecast = fl\<rparr> \<and>
         length fl = nat (min (max days 1) 7) \<and>
         (\<forall>e \<in> set fl. condition e \<in> set condition_vocabulary)) \<and>
   1 \<le> min (max days 1) 7 \<and> min (max days 1) 7 \<le> 7 \<and>
   get_weather_forecast w la lo days ctx
     = get_weather_forecast w la lo (min (max days 1) 7) ctx \<and>
   (n \<le> i \<longrightarrow> google_day w df n i = Inr (default_day (today w + int i))) \<and>
   (map_of dfs (today w + int i) = None
      \<longrightarrow> owm_day w dfs i = Inr (default_day (today w + int i)))"
proof -
  have "get_weather_forecast w la lo days ctx
          = get_weather_forecast w la lo (min (max days 1) 7) ctx"
    by (simp add: get_weather_forecast_def Let_def)
  then show ?thesis
    using forecast_shape [of w la lo days ctx] padding_google [of n i w df]
      padding_owm [of dfs w i]
    by auto
qed

theorem forecast_length_and_vocabulary_witness:
  "length (forecast (projr (get_weather_forecast example_world 40 (- 73) 10 None))) = 7 \<and>
   length (forecast (projr (get_weather_forecast example_world 40 (- 73) (- 2) None))) = 1 \<and>
   list_all (\<lambda>e. condition e \<in> set condition_vocabulary)
     (forecast (projr (get_weather_forecast example_world 40 (- 73) 10 None))) \<and>
   google_day example_world (JArr []) 0 0 = Inr (default_day 739924) \<and>
   owm_day example_world [] 0 = Inr (default_day 739924)"
proof -
  note t = forecast_length_and_vocabulary [where w = example_world and la = 40 and lo = "- 73"
      and ctx = None and n = 0 and i = 0 and df = "JArr []" and dfs = "[]"]
  from t [of 10] obtain fl where
    "get_weather_forecast example_world 40 (- 73) 10 None
       = Inr \<lparr>status = ''success'', forecast = fl\<rparr>"
    "length fl = nat (min (max 10 1) 7)"
    "\<forall>e \<in> set fl. condition e \<in> set condition_vocabulary"
    by blast
  then have a: "length (forecast (projr (get_weather_forecast example_world 40 (- 73) 10 None))) = 7
        \<and> list_all (\<lambda>e. condition e \<in> set condition_vocabulary)
            (forecast (projr (get_weather_forecast example_world 40 (- 73) 10 None)))"
    by (simp add: list_all_iff)
  from t [of "- 2"] obtain fl' where
    "get_weather_forecast example_world 40 (- 73) (- 2) None
       = Inr \<lparr>status = ''success'', forecast = fl'\<rparr>"
    "length fl' = nat (min (max (- 2) 1) 7)"
    by blast
  then have b: "length (forecast (projr (get_weather_forecast example_world 40 (- 73) (- 2) None))) = 1"
    by simp
  from t [of 10]
  have c: "google_day example_world (JArr []) 0 0 = Inr (default_day 739924) \<and>
           owm_day example_world [] 0 = Inr (default_day 739924)"
    by (simp add: example_today)
  from a b c show ?thesis by blast
qed

subsection \<open>The synthetic forecast of three days\<close>

text \<open>
  C3 (as stated, refuted). Without credentials, the forecast of 3 days for (40.0, -73.0) has
  the highs 23, 25, 27, not 25, 27, 29: the variation of day \<open>i\<close> is \<open>(i mod 3) * 2 - 2\<close>,
  that is -2, 0, 2.
\<close>

theorem mock_highs_counterexample:
  "get_weather_forecast example_world 40 (- 73) 3 None =
     Inr \<lparr>status = ''success'',
          forecast =
            [\<lparr>date = 739924, day_of_week = [0x5468, 0x4E09],
              condition = cn_sunny, condition_icon = icon_sun,
              temperature = \<lparr>high = 23, low = 18\<rparr>, humidity = 60, wind_speed = 8,
              precipitation_probability = 20, suitable_for_outdoor = True\<rparr>,
             \<lparr>date = 739925, day_of_week = [0x5468, 0x56DB],
              condition = cn_cloudy, condition_icon = icon_sun_cloud,
              temperature = \<lparr>high = 25, low = 20\<rparr>, humidity = 65, wind_speed = 10,
              precipitation_probability = 20, suitable_for_outdoor = True\<rparr>,
             \<lparr>date = 739926, day_of_week = [0x5468, 0x4E94],
              condition = cn_sunny, condition_icon = icon_sun,
              temperature = \<lparr>high = 27, low = 22\<rparr>, humidity = 70, wind_speed = 12,
              precipitation_probability = 20, suitable_for_outdoor = True\<rparr>]\<rparr> \<and>
   (case get_weather_forecast example_world 40 (- 73) 3 None of
      Inr r \<Rightarrow> map (\<lambda>e. high (temperature e)) (forecast r)
    | Inl e \<Rightarrow> []) \<noteq> [25, 27, 29]"
  by (simp add: no_credentials_mock [OF example_world_no_credentials] mock_three
        example_today example_days)


text \<open>
  C3 (amended). With no credential configured (no usable maps key in the tool context or the
  environment, no usable secondary key), the forecast of 3 days has exactly 3 entries, for
  today and the next two days, with the conditions sunny, cloudy, sunny of the cyclic
  sequence, the highs 23, 25, 27 (20 - 2 + 5, 20 + 0 + 5, 20 + 2 + 5), the lows 18, 20, 22 and
  the outdoor flags true, true, true.
\<close>

theorem mock_forecast_three_days:
  assumes "\<not> usable (resolve_maps_api_key w ctx)" and "\<not> usable (resolve_openweather_key w)"
  shows "\<exists>fl. get_weather_forecast w la lo 3 ctx = Inr \<lparr>status = ''success'', forecast = fl\<rparr> \<and>
           length fl = 3 \<and>
           map date fl = [today w, today w + 1, today w + 2] \<and>
           map condition fl = [cn_sunny, cn_cloudy, cn_sunny] \<and>
           map (\<lambda>e. high (temperature e)) fl = [23, 25, 27] \<and>
           map (\<lambda>e. low (temperature e)) fl = [18, 20, 22] \<and>
           map suitable_for_outdoor fl = [True, True, True]"
  by (simp add: no_credentials_mock [OF assms] mock_three)

theorem mock_forecast_three_days_witness:
  "\<not> usable (resolve_maps_api_key example_world None) \<and>
   \<not> usable (resolve_openweather_key example_world) \<and>
   map (\<lambda>e. high (temperature e))
     (forecast (projr (get_weather_forecast example_world 40 (- 73) 3 None))) = [23, 25, 27]"
  using mock_forecast_three_days [OF example_world_no_credentials, of 40 "- 73"]
    example_world_no_credentials
  by auto


section \<open>Properties of the venue search\<close>

subsection \<open>Helper lemmas\<close>

lemma no_key:
  assumes "case ctx of None \<Rightarrow> True | Some state \<Rightarrow> \<not> usable (state ''maps_api_key'')"
    and "\<not> usable (environ w ''GOOGLE_MAPS_API_KEY'')"
    and "\<not> usable (environ w ''MAPS_API_KEY'')"
  shows "\<not> usable (resolve_maps_api_key w ctx)"
  using assms
  by (auto simp add: resolve_maps_api_key_def usable_def get_or_empty_def Let_def
        split: option.splits)

lemma venue_info_place_id: "venue_info w la lo place pid = Inr v \<Longrightarrow> place_id v = pid"
  by (auto simp add: venue_info_def andthen_Inr_iff)

lemma add_places_unique:
  "unique_venues st \<Longrightarrow> unique_venues (add_places w la lo st places)"
proof (induction w la lo st places rule: add_places.induct)
  case (1 w latitude longitude st)
  then show ?case by simp
next
  case (2 w latitude longitude all_venues seen_place_ids place places)
  show ?case
  proof (cases "py_get place (U ''place_id'') JNull")
    case (Inl e)
    with 2 show ?thesis by simp
  next
    case pid: (Inr pid)
    show ?thesis
    proof (cases "truthy pid")
      case False
      with 2 pid show ?thesis by simp
    next
      case t: True
      show ?thesis
      proof (cases "hash_key pid")
        case (Inl e)
        with 2 pid t show ?thesis by simp
      next
        case k: (Inr k)
        show ?thesis
        proof (cases "k \<in> set seen_place_ids")
          case True
          with 2 pid t k show ?thesis by simp
        next
          case nk: False
          show ?thesis
          proof (cases "venue_info w latitude longitude place pid")
            case (Inl e)
            with 2(4) pid t k nk show ?thesis
              by (auto simp add: unique_venues_def)
          next
            case v: (Inr v)
            have pv: "hash_key (place_id v) = Inr k"
              using venue_info_place_id [OF v] k by simp
            have "unique_venues (all_venues @ [v], k # seen_place_ids)"
              using 2(4) nk pv by (auto simp add: unique_venues_def)
            from 2(3) [OF pid _ k nk v this] t pid k nk v show ?thesis
              by simp
          qed
        qed
      qed
    qed
  qed
qed

lemma add_places_grows:
  "\<exists>new. fst (add_places w la lo st places) = fst st @ new \<and>
         (\<forall>v \<in> set new. \<forall>k \<in> set (snd st). hash_key (place_id v) \<noteq> Inr k)"
proof (induction w la lo st places rule: add_places.induct)
  case (1 w latitude longitude st)
  then show ?case by simp
next
  case (2 w latitude longitude all_venues seen_place_ids place places)
  show ?case
  proof (cases "py_get place (U ''place_id'') JNull")
    case (Inl e)
    then show ?thesis by simp
  next
    case pid: (Inr pid)
    show ?thesis
    proof (cases "truthy pid")
      case False
      with 2(1) [OF pid] pid show ?thesis by simp
    next
      case t: True
      show ?thesis
      proof (cases "hash_key pid")
        case (Inl e)
        with pid t show ?thesis by simp
      next
        case k: (Inr k)
        show ?thesis
        proof (cases "k \<in> set seen_place_ids")
          case True
          with 2(2) [OF pid _ k] pid t k show ?thesis by simp
        next
          case nk: False
          show ?thesis
          proof (cases "venue_info w latitude longitude place pid")
            case (Inl e)
            with pid t k nk show ?thesis by simp
          next
            case v: (Inr v)
            have pv: "hash_key (place_id v) = Inr k"
              using venue_info_place_id [OF v] k by simp
            from 2(3) [OF pid _ k nk v] t obtain new where
              n: "fst (add_places w latitude longitude
                        (all_venues @ [v], k # seen_place_ids) places)
                    = (all_venues @ [v]) @ new"
                 "\<forall>u \<in> set new. \<forall>k' \<in> set (k # seen_place_ids).
                     hash_key (place_id u) \<noteq> Inr k'"
              by auto
            have "fst (add_places w latitude longitude (all_venues, seen_place_ids)
                        (place # places)) = all_venues @ (v # new)"
              using n(1) pid t k nk v by simp
            moreover have "\<forall>u \<in> set (v # new). \<forall>k' \<in> set seen_place_ids.
                hash_key (place_id u) \<noteq> Inr k'"
              using n(2) pv nk by auto
            ultimately show ?thesis
              by (metis fst_conv snd_conv)
          qed
        qed
      qed
    qed
  qed
qed

lemma search_place_type_unique:
  "unique_venues st \<Longrightarrow> unique_venues (search_place_type w pn la lo radius st place_type)"
  by (simp add: search_place_type_def add_places_unique split: sum.splits)

lemma search_all_unique:
  "unique_venues st \<Longrightarrow>
     unique_venues (foldl (search_place_type w pn la lo radius) st place_types)"
  by (induction place_types arbitrary: st) (simp_all add: search_place_type_unique)

lemma for_each_pairs:
  "(\<And>k v. (k, v) \<in> set ps \<Longrightarrow> f v = Inr k) \<Longrightarrow> for_each f (map snd ps) = Inr (map fst ps)"
proof (induction ps)
  case Nil
  then show ?case by simp
next
  case (Cons p ps)
  obtain k v where p: "p = (k, v)" by (cases p)
  have "f v = Inr k"
    using Cons.prems [of k v] p by simp
  moreover have "for_each f (map snd ps) = Inr (map fst ps)"
    using Cons by simp
  ultimately show ?case
    using p by simp
qed

lemma for_each_take: "for_each f xs = Inr ys \<Longrightarrow> for_each f (take n xs) = Inr (take n ys)"
proof (induction xs arbitrary: ys n)
  case Nil
  then show ?case by simp
next
  case (Cons x xs)
  then show ?case
    by (cases n) (auto simp add: andthen_Inr_iff)
qed

lemma for_each_zip:
  assumes "for_each f xs = Inr ys" and "(y, x) \<in> set (zip ys xs)"
  shows "f x = Inr y"
proof -
  from assms(2) obtain i where "i < length xs" "i < length ys" "xs ! i = x" "ys ! i = y"
    by (auto simp add: set_zip)
  with for_each_nth [OF assms(1), of i] show ?thesis by simp
qed

lemma sort_venues_sorted:
  assumes "sort_venues all_venues = Inr vs"
  shows "\<exists>ks. for_each venue_key vs = Inr ks \<and> sorted ks \<and> mset vs = mset all_venues"
proof -
  from assms obtain keys where
    k: "for_each venue_key all_venues = Inr keys"
    and vs: "vs = map snd (sort_key fst (zip keys all_venues))"
    by (auto simp add: sort_venues_def andthen_Inr_iff)
  let ?ps = "sort_key fst (zip keys all_venues)"
  have len: "length keys = length all_venues"
    using for_each_length [OF k] .
  have "\<And>key v. (key, v) \<in> set ?ps \<Longrightarrow> venue_key v = Inr key"
    using for_each_zip [OF k] by simp
  then have "for_each venue_key (map snd ?ps) = Inr (map fst ?ps)"
    by (rule for_each_pairs)
  moreover have "sorted (map fst ?ps)"
    by (rule sorted_sort_key)
  moreover have "mset (map snd ?ps) = mset all_venues"
  proof -
    have "mset (map snd ?ps) = image_mset snd (mset (zip keys all_venues))"
      by simp
    also have "\<dots> = mset (map snd (zip keys all_venues))"
      by simp
    also have "\<dots> = mset all_venues"
      using len by simp
    finally show ?thesis .
  qed
  ultimately show ?thesis
    using vs by blast
qed

lemma slice_to_take: "\<exists>n. slice_to xs m = take n xs"
  by (auto simp add: slice_to_def)

lemma slice_to_length: "0 \<le> m \<Longrightarrow> length (slice_to xs m) \<le> nat m"
  by (simp add: slice_to_def)

lemma rank_venues_properties:
  assumes "rank_venues all_venues m = Inr vs"
    and "distinct (map (\<lambda>v. hash_key (place_id v)) all_venues)"
  shows "distinct (map (\<lambda>v. hash_key (place_id v)) vs) \<and>
         (\<exists>ks. for_each venue_key vs = Inr ks \<and> sorted ks) \<and>
         (0 \<le> m \<longrightarrow> length vs \<le> nat m) \<and>
         (\<exists>sorted_venues. sort_venues all_venues = Inr sorted_venues \<and>
            vs = slice_to sorted_venues m)"
proof -
  from assms(1) obtain sv where
    sv: "sort_venues all_venues = Inr sv" and vs: "vs = slice_to sv m"
    by (auto simp add: rank_venues_def andthen_Inr_iff)
  from sort_venues_sorted [OF sv] obtain ks where
    ks: "for_each venue_key sv = Inr ks" "sorted ks" "mset sv = mset all_venues"
    by blast
  obtain n where n: "vs = take n sv"
    using vs slice_to_take [of sv m] by auto
  have "mset (map (\<lambda>v. hash_key (place_id v)) sv)
          = mset (map (\<lambda>v. hash_key (place_id v)) all_venues)"
    using ks(3) by (metis mset_map)
  then have "distinct (map (\<lambda>v. hash_key (place_id v)) sv)"
    using assms(2) by (metis mset_eq_imp_distinct_iff)
  then have "distinct (map (\<lambda>v. hash_key (place_id v)) vs)"
    unfolding n by (simp add: take_map [symmetric])
  moreover have "for_each venue_key vs = Inr (take n ks) \<and> sorted (take n ks)"
    unfolding n using for_each_take [OF ks(1)] ks(2) by (simp add: sorted_wrt_take)
  moreover have "0 \<le> m \<longrightarrow> length vs \<le> nat m"
    using vs slice_to_length by auto
  ultimately show ?thesis
    using sv vs by blast
qed

lemma search_result_cases:
  "search_nearby_venues w la lo sport radius m ctx = r \<Longrightarrow>
     (status r = ''error'' \<and> venues r = []) \<or>
     (status r = ''success'' \<and> error_message r = None \<and>
      (\<exists>pn all_venues. googlemaps_Client w (get_or_empty (resolve_maps_api_key w ctx)) = Inr pn \<and>
         unique_venues (all_venues, snd (foldl (search_place_type w pn la lo radius) ([], [])
            (map_sport_to_place_types (str_lower w) sport))) \<and>
         all_venues = fst (foldl (search_place_type w pn la lo radius) ([], [])
            (map_sport_to_place_types (str_lower w) sport)) \<and>
         rank_venues all_venues m = Inr (venues r)))"
proof -
  assume r: "search_nearby_venues w la lo sport radius m ctx = r"
  show ?thesis
  proof (cases "usable (resolve_maps_api_key w ctx)")
    case False
    with r show ?thesis
      by (auto simp add: search_nearby_venues_def Let_def)
  next
    case u: True
    show ?thesis
    proof (cases "googlemaps_Client w (get_or_empty (resolve_maps_api_key w ctx))")
      case (Inl e)
      with r u show ?thesis
        by (auto simp add: search_nearby_venues_def Let_def)
    next
      case pn: (Inr pn)
      let ?st = "foldl (search_place_type w pn la lo radius) ([], [])
                   (map_sport_to_place_types (str_lower w) sport)"
      have uq: "unique_venues ?st"
        by (rule search_all_unique) (simp add: unique_venues_def)
      show ?thesis
      proof (cases "rank_venues (fst ?st) m")
        case (Inl e)
        with r u pn show ?thesis
          by (auto simp add: search_nearby_venues_def Let_def)
      next
        case (Inr vs)
        with r u pn have "r = \<lparr>status = ''success'', venues = vs, error_message = None,
            searched = Some (sport, la, lo)\<rparr>"
          by (auto simp add: search_nearby_venues_def Let_def)
        with Inr pn uq show ?thesis
          by auto
      qed
    qed
  qed
qed

lemma running_types:
  "map_sport_to_place_types ascii_lower (U ''running'') = [U ''park'', U ''route'']"
  by (simp add: map_sport_to_place_types_def sport_mapping_def U_def Let_def)

lemma rfe_int: "round_half_even (of_int n) = n"
  by (simp add: round_half_even_def)

lemma rfe_500: "round_half_even 500 = 500" "round_half_even 300 = 300"
  using rfe_int [of 500] rfe_int [of 300] by simp_all

lemma venue_world_key:
  "resolve_maps_api_key venue_world None = Some (U ''maps-key'')"
  by (simp add: resolve_maps_api_key_def usable_def venue_world_def example_world_def U_def)

lemma venue_world_fields:
  "str_lower venue_world = ascii_lower"
  "googlemaps_Client venue_world = (\<lambda>key. Inr example_places)"
  "calculate_distance venue_world = (\<lambda>lat1 lon1 lat2 lon2. Inr (\<bar>lat2 - lat1\<bar> * 111000))"
  "format_int venue_world = (\<lambda>n. [])"
  "format_1f venue_world = (\<lambda>x. [])"
  by (simp_all add: venue_world_def example_world_def)

lemma venue_info_example:
  "venue_info venue_world 40 (- 73) (place_json pid nm (40 + m / 111000) (JFloat rt))
      (JStr (U pid)) =
   Inr \<lparr>name = JStr (U nm), address = JStr [],
        distance = format_distance venue_world \<bar>m\<bar>,
        distance_meters = round_half_even \<bar>m\<bar>, rating = JFloat rt, place_id = JStr (U pid),
        types = JArr [], location = (40 + m / 111000, - 73)\<rparr>"
  by (simp add: venue_info_def place_json_def venue_world_fields number_def U_def)

lemma example_search_state:
  "foldl (search_place_type venue_world example_places 40 (- 73) 2000) ([], [])
     [U ''park'', U ''route''] =
   ([venue_A, venue_B, venue_C], [KStr (U ''c''), KStr (U ''b''), KStr (U ''a'')])"
proof -
  have pid: "py_get (place_json p nm lat rt) (U ''place_id'') JNull = Inr (JStr (U p))"
    for p nm lat rt
    by (simp add: place_json_def U_def)
  have ne: "U ''a'' \<noteq> []" "U ''b'' \<noteq> []" "U ''c'' \<noteq> []"
    "U ''b'' \<noteq> U ''a''" "U ''c'' \<noteq> U ''a''" "U ''c'' \<noteq> U ''b''"
    "U ''route'' \<noteq> U ''park''"
    by (simp_all add: U_def)
  have d: "format_distance venue_world 500 = [0x7C73]" "format_distance venue_world 300 = [0x7C73]"
    by (simp_all add: format_distance_def venue_world_fields)
  show ?thesis
    by (simp add: search_place_type_def example_places_def pid ne venue_info_example
          [where m = 500, simplified] venue_info_example [where m = 300, simplified]
          example_venue_def venue_A_def venue_B_def venue_C_def d)
qed


lemma example_keys:
  "venue_key venue_A = Inr (500, - 4.0)"
  "venue_key venue_B = Inr (500, - 4.5)"
  "venue_key venue_C = Inr (300, - 2.0)"
  by (simp_all add: venue_key_def example_venue_def number_def rfe_500
        venue_A_def venue_B_def venue_C_def)

lemma example_sorted:
  "sort_venues [venue_A, venue_B, venue_C] = Inr [venue_C, venue_B, venue_A]"
  by (simp add: sort_venues_def example_keys)

lemma example_search:
  "search_nearby_venues venue_world 40 (- 73) (U ''running'') 2000 m None =
     \<lparr>status = ''success'',
      venues = slice_to [venue_C, venue_B, venue_A] m,
      error_message = None, searched = Some (U ''running'', 40, - 73)\<rparr>"
proof -
  have u: "usable (Some (U ''maps-key''))"
    by (simp add: usable_def U_def)
  show ?thesis
    by (simp add: search_nearby_venues_def venue_world_key u get_or_empty_def
          venue_world_fields running_types example_search_state [simplified] rank_venues_def
          example_sorted)
qed

lemma slices:
  "slice_to [a, b, c] 5 = [a, b, c]" "slice_to [a, b, c] 2 = [a, b]"
  "slice_to [a, b, c] (- 1) = [a, b]"
  by (simp_all add: slice_to_def)

lemma sorted_keys_pairwise:
  assumes "for_each venue_key vs = Inr ks" and "sorted ks" and "i < j" and "j < length vs"
  shows "\<exists>ri rj. number (rating (vs ! i)) = Inr ri \<and> number (rating (vs ! j)) = Inr rj \<and>
           (distance_meters (vs ! i) < distance_meters (vs ! j) \<or>
            distance_meters (vs ! i) = distance_meters (vs ! j) \<and> rj \<le> ri)"
proof -
  have len: "length ks = length vs"
    using for_each_length [OF assms(1)] .
  have ki: "venue_key (vs ! i) = Inr (ks ! i)" and kj: "venue_key (vs ! j) = Inr (ks ! j)"
    using for_each_nth [OF assms(1)] assms(3,4) by simp_all
  from ki obtain ri where ri: "number (rating (vs ! i)) = Inr ri"
    "ks ! i = (distance_meters (vs ! i), - ri)"
    by (auto simp add: venue_key_def andthen_Inr_iff)
  from kj obtain rj where rj: "number (rating (vs ! j)) = Inr rj"
    "ks ! j = (distance_meters (vs ! j), - rj)"
    by (auto simp add: venue_key_def andthen_Inr_iff)
  have "ks ! i \<le> ks ! j"
    using assms(2,3,4) len by (simp add: sorted_iff_nth_mono)
  then have "distance_meters (vs ! i) < distance_meters (vs ! j) \<or>
             distance_meters (vs ! i) = distance_meters (vs ! j) \<and> rj \<le> ri"
    unfolding ri(2) rj(2) by (auto simp add: less_eq_prod_def)
  with ri(1) rj(1) show ?thesis by blast
qed

lemma search_ranked:
  "distinct (map (\<lambda>v. hash_key (place_id v))
      (venues (search_nearby_venues w la lo sport radius m ctx))) \<and>
   (\<exists>ks. for_each venue_key (venues (search_nearby_venues w la lo sport radius m ctx)) = Inr ks \<and>
         sorted ks) \<and>
   (0 \<le> m \<longrightarrow> length (venues (search_nearby_venues w la lo sport radius m ctx)) \<le> nat m)"
proof -
  let ?r = "search_nearby_venues w la lo sport radius m ctx"
  from search_result_cases [of w la lo sport radius m ctx ?r]
  consider (err) "venues ?r = []"
    | (ok) all_venues where "distinct (map (\<lambda>v. hash_key (place_id v)) all_venues)"
        "rank_venues all_venues m = Inr (venues ?r)"
    by (auto simp add: unique_venues_def)
  then show ?thesis
  proof cases
    case err
    then show ?thesis by simp
  next
    case ok
    from rank_venues_properties [OF ok(2) ok(1)] show ?thesis
      by blast
  qed
qed

subsection \<open>No credential\<close>

text \<open>
  C5. When no maps credential is configured, that is, the tool context is absent or holds no
  non-empty \<open>maps_api_key\<close> and the environment variables \<open>GOOGLE_MAPS_API_KEY\<close> and
  \<open>MAPS_API_KEY\<close> are unset or empty, \<open>search_nearby_venues\<close> returns the error result: status
  "error", no venue, and the message "Google Maps API key not configured". Nothing is
  searched and no venue is made up.
\<close>

theorem search_without_credential:
  assumes "case ctx of None \<Rightarrow> True | Some state \<Rightarrow> \<not> usable (state ''maps_api_key'')"
    and "\<not> usable (environ w ''GOOGLE_MAPS_API_KEY'')"
    and "\<not> usable (environ w ''MAPS_API_KEY'')"
  shows "search_nearby_venues w la lo sport radius m ctx =
           \<lparr>status = ''error'', venues = [],
            error_message = Some (Literal (U ''Google Maps API key not configured'')),
            searched = None\<rparr>"
proof -
  have "\<not> usable (resolve_maps_api_key w ctx)"
    using assms by (rule no_key)
  then show ?thesis
    by (simp add: search_nearby_venues_def Let_def)
qed

theorem search_without_credential_witness:
  "\<not> usable (environ example_world ''GOOGLE_MAPS_API_KEY'') \<and>
   \<not> usable (environ example_world ''MAPS_API_KEY'') \<and>
   \<not> usable (Some []) \<and>
   search_nearby_venues example_world 40 (- 73) (U ''running'') 2000 5
       (Some (\<lambda>k. if k = ''maps_api_key'' then Some [] else None)) =
     \<lparr>status = ''error'', venues = [],
      error_message = Some (Literal (U ''Google Maps API key not configured'')),
      searched = None\<rparr>"
proof -
  have h: "\<not> usable (environ example_world ''GOOGLE_MAPS_API_KEY'')"
    "\<not> usable (environ example_world ''MAPS_API_KEY'')" "\<not> usable (Some [])"
    by (simp_all add: example_world_def usable_def)
  have c: "case Some (\<lambda>k. if k = ''maps_api_key'' then Some [] else None) of
             None \<Rightarrow> True | Some state \<Rightarrow> \<not> usable (state ''maps_api_key'')"
    by (simp add: usable_def)
  from search_without_credential [OF c h(1) h(2)] h show ?thesis
    by blast
qed

subsection \<open>Ranking\<close>

text \<open>
  C6. The venues returned by \<open>search_nearby_venues\<close> have pairwise different place
  identifiers; they are sorted by the key (distance in metres, negated rating), so that of
  two venues the earlier one is nearer, or as near and rated at least as high; and they are
  the first \<open>max_results\<close> entries of the sorted list, hence at most \<open>max_results\<close> entries,
  \<open>max_results\<close> being a number of results and so not negative. The loop over the places of
  a category only appends, and never a place whose identifier was already seen: the first
  occurrence of an identifier is the one kept. For A (500 m, rating 4.0), B (500 m, rating
  4.5) and C (300 m, rating 2.0) the order is C, B, A.
\<close>

theorem search_results_ranked:
  "distinct (map (\<lambda>v. hash_key (place_id v))
      (venues (search_nearby_venues w la lo sport radius m ctx))) \<and>
   (\<exists>ks. for_each venue_key (venues (search_nearby_venues w la lo sport radius m ctx)) = Inr ks \<and>
         sorted ks) \<and>
   (i < j \<and> j < length (venues (search_nearby_venues w la lo sport radius m ctx)) \<longrightarrow>
      (\<exists>ri rj.
         number (rating (venues (search_nearby_venues w la lo sport radius m ctx) ! i)) = Inr ri \<and>
         number (rating (venues (search_nearby_venues w la lo sport radius m ctx) ! j)) = Inr rj \<and>
         (distance_meters (venues (search_nearby_venues w la lo sport radius m ctx) ! i)
            < distance_meters (venues (search_nearby_venues w la lo sport radius m ctx) ! j) \<or>
          distance_meters (venues (search_nearby_venues w la lo sport radius m ctx) ! i)
            = distance_meters (venues (search_nearby_venues w la lo sport radius m ctx) ! j) \<and>
          rj \<le> ri))) \<and>
   (0 \<le> m \<longrightarrow> length (venues (search_nearby_venues w la lo sport radius m ctx)) \<le> nat m) \<and>
   (status (search_nearby_venues w la lo sport radius m ctx) = ''success'' \<longrightarrow>
      (\<exists>places_nearby sorted_venues.
         googlemaps_Client w (get_or_empty (resolve_maps_api_key w ctx)) = Inr places_nearby \<and>
         sort_venues (fst (foldl (search_place_type w places_nearby la lo radius) ([], [])
            (map_sport_to_place_types (str_lower w) sport))) = Inr sorted_venues \<and>
         venues (search_nearby_venues w la lo sport radius m ctx) = slice_to sorted_venues m)) \<and>
   (\<exists>new. fst (add_places w la lo st places) = fst st @ new \<and>
          (\<forall>v \<in> set new. \<forall>k \<in> set (snd st). hash_key (place_id v) \<noteq> Inr k)) \<and>
   venue_key venue_A = Inr (500, - 4.0) \<and>
   venue_key venue_B = Inr (500, - 4.5) \<and>
   venue_key venue_C = Inr (300, - 2.0) \<and>
   rank_venues [venue_A, venue_B, venue_C] 5 = Inr [venue_C, venue_B, venue_A]"
proof -
  let ?r = "search_nearby_venues w la lo sport radius m ctx"
  note r = search_ranked [of w la lo sport radius m ctx]
  from r obtain ks where ks: "for_each venue_key (venues ?r) = Inr ks" "sorted ks"
    by blast
  have pair: "i < j \<and> j < length (venues ?r) \<longrightarrow>
      (\<exists>ri rj. number (rating (venues ?r ! i)) = Inr ri \<and>
         number (rating (venues ?r ! j)) = Inr rj \<and>
         (distance_meters (venues ?r ! i) < distance_meters (venues ?r ! j) \<or>
          distance_meters (venues ?r ! i) = distance_meters (venues ?r ! j) \<and> rj \<le> ri))"
    using sorted_keys_pairwise [OF ks] by blast
  have slice: "status ?r = ''success'' \<longrightarrow>
      (\<exists>places_nearby sorted_venues.
         googlemaps_Client w (get_or_empty (resolve_maps_api_key w ctx)) = Inr places_nearby \<and>
         sort_venues (fst (foldl (search_place_type w places_nearby la lo radius) ([], [])
            (map_sport_to_place_types (str_lower w) sport))) = Inr sorted_venues \<and>
         venues ?r = slice_to sorted_venues m)"
  proof
    assume ok: "status ?r = ''success''"
    with search_result_cases [of w la lo sport radius m ctx ?r]
    obtain pn where pn: "googlemaps_Client w (get_or_empty (resolve_maps_api_key w ctx)) = Inr pn"
      and rk: "rank_venues (fst (foldl (search_place_type w pn la lo radius) ([], [])
            (map_sport_to_place_types (str_lower w) sport))) m = Inr (venues ?r)"
      by auto
    from rk obtain sv where
      "sort_venues (fst (foldl (search_place_type w pn la lo radius) ([], [])
            (map_sport_to_place_types (str_lower w) sport))) = Inr sv"
      "venues ?r = slice_to sv m"
      by (auto simp add: rank_venues_def andthen_Inr_iff)
    with pn show "\<exists>places_nearby sorted_venues.
         googlemaps_Client w (get_or_empty (resolve_maps_api_key w ctx)) = Inr places_nearby \<and>
         sort_venues (fst (foldl (search_place_type w places_nearby la lo radius) ([], [])
            (map_sport_to_place_types (str_lower w) sport))) = Inr sorted_venues \<and>
         venues ?r = slice_to sorted_venues m"
      by blast
  qed
  have ex: "rank_venues [venue_A, venue_B, venue_C] 5 = Inr [venue_C, venue_B, venue_A]"
    by (simp add: rank_venues_def example_sorted slices)
  from r pair slice add_places_grows [of w la lo st places] example_keys ex
  show ?thesis
    by blast
qed

theorem search_results_ranked_witness:
  "venues (search_nearby_venues venue_world 40 (- 73) (U ''running'') 2000 2 None)
     = [venue_C, venue_B] \<and>
   (0::int) \<le> 2 \<and>
   length (venues (search_nearby_venues venue_world 40 (- 73) (U ''running'') 2000 2 None))
     \<le> nat 2 \<and>
   (0::nat) < 1 \<and>
   distance_meters venue_C < distance_meters venue_B \<and>
   status (search_nearby_venues venue_world 40 (- 73) (U ''running'') 2000 2 None) = ''success'' \<and>
   venues (search_nearby_venues venue_world 40 (- 73) (U ''running'') 2000 5 None)
     = [venue_C, venue_B, venue_A] \<and>
   name venue_A = JStr (U ''A'')"
proof -
  have v: "venues (search_nearby_venues venue_world 40 (- 73) (U ''running'') 2000 2 None)
             = [venue_C, venue_B]"
    "status (search_nearby_venues venue_world 40 (- 73) (U ''running'') 2000 2 None) = ''success''"
    "venues (search_nearby_venues venue_world 40 (- 73) (U ''running'') 2000 5 None)
       = [venue_C, venue_B, venue_A]"
    by (simp_all add: example_search slices)
  have l: "length (venues
      (search_nearby_venues venue_world 40 (- 73) (U ''running'') 2000 2 None)) \<le> nat 2"
    using search_results_ranked [of venue_world 40 "- 73" "U ''running''" 2000 2 None]
    by simp
  have d: "distance_meters venue_C < distance_meters venue_B" "name venue_A = JStr (U ''A'')"
    by (simp_all add: venue_A_def venue_B_def venue_C_def example_venue_def rfe_500)
  from v l d show ?thesis
    by simp
qed


section \<open>Properties of the secondary provider\<close>

subsection \<open>Helper lemmas\<close>




























subsection \<open>Reduction of a bucket\<close>




end
